(* ===== verification/Prelude.thy ===== *)
theory Prelude
  imports Main "HOL-Library.Multiset"
begin

text \<open>
  Shared vocabulary of the development: the types that name the program's data
  (paths and strings are Python \<open>str\<close> values, modelled as \<open>string\<close>), the
  named collection of simplification rules for the Python string model, and
  generic lemmas on lists and characters that the component theories share.
\<close>

named_theorems py_simps "evaluation rules of the Python string and path model"

type_synonym path = string

text \<open>The path separator \<open>os.sep\<close> and the extension separator \<open>os.extsep\<close> of POSIX.\<close>

abbreviation sep_char :: char where
  "sep_char \<equiv> CHR ''/''"

abbreviation dot_char :: char where
  "dot_char \<equiv> CHR ''.''"

text \<open>The single quote, which Python's error messages put around names.\<close>

abbreviation squote :: char where
  "squote \<equiv> CHR 0x27"

subsection \<open>Python dictionaries\<close>

text \<open>A dictionary literal with distinct keys is an association list; \<open>d.get(k, default)\<close>
  looks the key up and falls back to the default \<open>dflt\<close>.\<close>

definition dict_get :: "('k \<times> 'v) list \<Rightarrow> 'k \<Rightarrow> 'v \<Rightarrow> 'v" where
  "dict_get d k dflt = (case map_of d k of Some v \<Rightarrow> v | None \<Rightarrow> dflt)"

subsection \<open>Generic list lemmas\<close>

lemma ex_set_drop_conv:
  "(\<exists>c \<in> set (drop n xs). P c) \<longleftrightarrow> (\<exists>k. n \<le> k \<and> k < length xs \<and> P (xs ! k))"
proof
  assume "\<exists>c \<in> set (drop n xs). P c"
  then obtain i where "i < length (drop n xs)" "P (drop n xs ! i)"
    by (auto simp: in_set_conv_nth)
  then show "\<exists>k. n \<le> k \<and> k < length xs \<and> P (xs ! k)"
    by (intro exI [of _ "n + i"]) auto
next
  assume "\<exists>k. n \<le> k \<and> k < length xs \<and> P (xs ! k)"
  then obtain k where k: "n \<le> k" "k < length xs" "P (xs ! k)" by blast
  then have "drop n xs ! (k - n) = xs ! k" "k - n < length (drop n xs)" by auto
  with k(3) show "\<exists>c \<in> set (drop n xs). P c" by (metis nth_mem)
qed


lemma dict_get_in_range:
  "dict_get d k dflt \<in> insert dflt (snd ` set d)"
proof (cases "map_of d k")
  case (Some v)
  then have "(k, v) \<in> set d" by (rule map_of_SomeD)
  with Some show ?thesis by (force simp: dict_get_def)
qed (simp add: dict_get_def)

end
