(* ===== verification/PyPath.thy ===== *)
theory PyPath
  imports Prelude
begin

text \<open>
  The parts of Python's \<open>str\<close> and \<open>posixpath\<close> (\<open>os.path\<close>) that the script calls:
  \<open>str.rfind\<close>, \<open>str.endswith\<close>, \<open>os.path.basename\<close>, \<open>os.path.dirname\<close>,
  \<open>os.path.join\<close> (two arguments) and \<open>os.path.splitext\<close>, translated from CPython's
  \<open>posixpath.py\<close> and \<open>genericpath.py\<close> (they are library code, not part of the
  repository). Indices are Python \<open>int\<close>s where the library uses \<open>-1\<close> as "not found".
  On top of them, \<open>transcript_path\<close> is the output path of \<open>process_single_file\<close>
  (line 121 of the script).
\<close>

subsection \<open>String methods\<close>

text \<open>\<open>s.rfind(c)\<close>: the highest index of \<open>c\<close> in \<open>s\<close>, or \<open>-1\<close>; a left-to-right scan that
  remembers the last hit.\<close>

fun rfind_from :: "char \<Rightarrow> string \<Rightarrow> nat \<Rightarrow> int \<Rightarrow> int" where
  "rfind_from c [] i r = r"
| "rfind_from c (x # xs) i r = rfind_from c xs (Suc i) (if x = c then int i else r)"

definition str_rfind :: "string \<Rightarrow> char \<Rightarrow> int" where
  "str_rfind s c = rfind_from c s 0 (-1)"

text \<open>\<open>s.endswith(suf)\<close>.\<close>

definition str_endswith :: "string \<Rightarrow> string \<Rightarrow> bool" where
  "str_endswith s suf \<longleftrightarrow> length suf \<le> length s \<and> drop (length s - length suf) s = suf"

text \<open>\<open>s.startswith(pre)\<close>.\<close>

definition str_startswith :: "string \<Rightarrow> string \<Rightarrow> bool" where
  "str_startswith s pre \<longleftrightarrow> take (length pre) s = pre"

text \<open>\<open>s.rstrip(c)\<close> for one character.\<close>

definition str_rstrip :: "string \<Rightarrow> char \<Rightarrow> string" where
  "str_rstrip s c = rev (dropWhile (\<lambda>x. x = c) (rev s))"

subsection \<open>posixpath\<close>

text \<open>\<open>basename(p)\<close>: \<open>i = p.rfind(sep) + 1; return p[i:]\<close>.\<close>

definition py_basename :: "path \<Rightarrow> string" where
  "py_basename p = drop (nat (str_rfind p sep_char + 1)) p"

text \<open>\<open>dirname(p)\<close>: the head up to the last separator, with trailing separators stripped
  unless the head consists of separators only.\<close>

definition py_dirname :: "path \<Rightarrow> path" where
  "py_dirname p =
     (let i = nat (str_rfind p sep_char + 1); head = take i p
      in if head \<noteq> [] \<and> head \<noteq> replicate (length head) sep_char
         then str_rstrip head sep_char else head)"

text \<open>\<open>join(a, b)\<close>: an absolute \<open>b\<close> replaces \<open>a\<close>; otherwise a separator is inserted
  unless \<open>a\<close> is empty or already ends with one.\<close>

definition py_join :: "path \<Rightarrow> string \<Rightarrow> path" where
  "py_join a b =
     (if str_startswith b [sep_char] then b
      else if a = [] \<or> str_endswith a [sep_char] then a @ b
      else a @ sep_char # b)"

text \<open>The loop of \<open>genericpath._splitext\<close> that skips the leading dots of the file name:
  \<^verbatim>\<open>
    filenameIndex = sepIndex + 1
    while filenameIndex < dotIndex:
        if p[filenameIndex:filenameIndex+1] != extsep:
            return p[:dotIndex], p[dotIndex:]
        filenameIndex += 1
  \<close>
  It answers whether a character other than a dot occurs in \<open>p[i:d]\<close>.\<close>

function skip_leading_dots :: "string \<Rightarrow> int \<Rightarrow> int \<Rightarrow> bool" where
  "skip_leading_dots p i d =
     (if i < d then (if p ! nat i \<noteq> dot_char then True else skip_leading_dots p (i + 1) d)
      else False)"
  by pat_completeness auto
termination
  by (relation "measure (\<lambda>(p, i, d). nat (d - i))") auto

declare skip_leading_dots.simps [simp del]

text \<open>\<open>splitext(p)\<close>: split at the last dot when it lies after the last separator and
  the file name does not consist of dots up to it; otherwise the extension is empty.\<close>

definition py_splitext :: "path \<Rightarrow> path \<times> string" where
  "py_splitext p =
     (let sepIndex = str_rfind p sep_char; dotIndex = str_rfind p dot_char
      in if dotIndex > sepIndex \<and> skip_leading_dots p (sepIndex + 1) dotIndex
         then (take (nat dotIndex) p, drop (nat dotIndex) p)
         else (p, []))"

subsection \<open>The transcript path\<close>

text \<open>Line 121: \<open>transcript_path = os.path.splitext(video_path)[0] + ".txt"\<close>.\<close>

definition transcript_path :: "path \<Rightarrow> path" where
  "transcript_path video_path = fst (py_splitext video_path) @ ''.txt''"

subsection \<open>Lemmas: \<open>rfind\<close>\<close>

lemma rfind_from_append:
  "rfind_from c (xs @ ys) i r = rfind_from c ys (i + length xs) (rfind_from c xs i r)"
  by (induction xs arbitrary: i r) simp_all

lemma rfind_from_notin: "c \<notin> set xs \<Longrightarrow> rfind_from c xs i r = r"
  by (induction xs arbitrary: i r) auto

lemma str_rfind_notin [py_simps]: "c \<notin> set s \<Longrightarrow> str_rfind s c = -1"
  by (simp add: str_rfind_def rfind_from_notin)

lemma str_rfind_last [py_simps]: "c \<notin> set b \<Longrightarrow> str_rfind (a @ c # b) c = int (length a)"
  by (simp add: str_rfind_def rfind_from_append rfind_from_notin)

lemma str_rfind_append_notin [py_simps]: "c \<notin> set b \<Longrightarrow> str_rfind (a @ b) c = str_rfind a c"
  by (simp add: str_rfind_def rfind_from_append rfind_from_notin)

lemma str_rfind_cases:
  obtains "c \<notin> set s" "str_rfind s c = -1"
  | a b where "s = a @ c # b" "c \<notin> set b" "str_rfind s c = int (length a)"
proof (cases "c \<in> set s")
  case True
  then obtain a b where "s = a @ c # b" "c \<notin> set b" by (meson split_list_last)
  then show ?thesis using that(2) by (simp add: str_rfind_last)
next
  case False
  then show ?thesis using that(1) by (simp add: str_rfind_notin)
qed

lemma str_rfind_bounds: "-1 \<le> str_rfind s c \<and> str_rfind s c < int (length s)"
  by (cases s c rule: str_rfind_cases) auto

lemma skip_leading_dots_iff:
  "0 \<le> i \<Longrightarrow> d \<le> int (length p) \<Longrightarrow>
   skip_leading_dots p i d \<longleftrightarrow> (\<exists>k. i \<le> int k \<and> int k < d \<and> p ! k \<noteq> dot_char)"
proof (induction p i d rule: skip_leading_dots.induct)
  case (1 p i d)
  show ?case
  proof (cases "i < d")
    case True
    show ?thesis
    proof (cases "p ! nat i \<noteq> dot_char")
      case True
      with \<open>i < d\<close> "1.prems" show ?thesis
        by (subst skip_leading_dots.simps) (auto intro!: exI [of _ "nat i"])
    next
      case False
      with \<open>i < d\<close> "1.IH" "1.prems" have
        "skip_leading_dots p (i + 1) d \<longleftrightarrow> (\<exists>k. i + 1 \<le> int k \<and> int k < d \<and> p ! k \<noteq> dot_char)"
        by simp
      moreover have "(\<exists>k. i + 1 \<le> int k \<and> int k < d \<and> p ! k \<noteq> dot_char) \<longleftrightarrow>
                     (\<exists>k. i \<le> int k \<and> int k < d \<and> p ! k \<noteq> dot_char)"
      proof
        assume "\<exists>k. i \<le> int k \<and> int k < d \<and> p ! k \<noteq> dot_char"
        then obtain k where k: "i \<le> int k" "int k < d" "p ! k \<noteq> dot_char" by blast
        have "int k \<noteq> i"
        proof
          assume "int k = i"
          then have "k = nat i" by simp
          with False k(3) show False by simp
        qed
        with k show "\<exists>k. i + 1 \<le> int k \<and> int k < d \<and> p ! k \<noteq> dot_char"
          by (intro exI [of _ k]) auto
      next
        assume "\<exists>k. i + 1 \<le> int k \<and> int k < d \<and> p ! k \<noteq> dot_char"
        then obtain k where "i + 1 \<le> int k" "int k < d" "p ! k \<noteq> dot_char" by blast
        then show "\<exists>k. i \<le> int k \<and> int k < d \<and> p ! k \<noteq> dot_char"
          by (intro exI [of _ k]) auto
      qed
      ultimately show ?thesis using \<open>i < d\<close> False by (subst skip_leading_dots.simps) simp
    qed
  next
    case False
    then show ?thesis by (subst skip_leading_dots.simps) auto
  qed
qed

subsection \<open>Lemmas: \<open>splitext\<close>\<close>

lemma py_splitext_ext:
  assumes "dot_char \<notin> set e" "sep_char \<notin> set e"
  shows "py_splitext (q @ dot_char # e) =
    (if \<exists>c \<in> set (py_basename q). c \<noteq> dot_char then (q, dot_char # e) else (q @ dot_char # e, []))"
proof -
  let ?p = "q @ dot_char # e"
  let ?s = "str_rfind q sep_char"
  have s: "str_rfind ?p sep_char = ?s"
    using assms(2) by (simp add: str_rfind_append_notin)
  have d: "str_rfind ?p dot_char = int (length q)"
    using assms(1) by (simp add: str_rfind_last)
  have lt: "?s < int (length q)" and ge: "-1 \<le> ?s"
    using str_rfind_bounds [of q sep_char] by auto
  have "skip_leading_dots ?p (?s + 1) (int (length q)) \<longleftrightarrow>
        (\<exists>k. ?s + 1 \<le> int k \<and> int k < int (length q) \<and> ?p ! k \<noteq> dot_char)"
    using ge by (intro skip_leading_dots_iff) auto
  also have "\<dots> \<longleftrightarrow> (\<exists>k. nat (?s + 1) \<le> k \<and> k < length q \<and> q ! k \<noteq> dot_char)"
  proof -
    have "\<And>k. ?s + 1 \<le> int k \<longleftrightarrow> nat (?s + 1) \<le> k" using ge by linarith
    moreover have "\<And>k. k < length q \<Longrightarrow> ?p ! k = q ! k" by (simp add: nth_append)
    ultimately show ?thesis by auto
  qed
  also have "\<dots> \<longleftrightarrow> (\<exists>c \<in> set (py_basename q). c \<noteq> dot_char)"
    unfolding py_basename_def by (rule ex_set_drop_conv [symmetric])
  finally have skip: "skip_leading_dots ?p (?s + 1) (int (length q)) \<longleftrightarrow>
      (\<exists>c \<in> set (py_basename q). c \<noteq> dot_char)" .
  show ?thesis
    unfolding py_splitext_def Let_def s d skip using lt by simp
qed

subsection \<open>Lemmas: \<open>endswith\<close>, \<open>basename\<close>, \<open>dirname\<close>\<close>

lemma str_endswith_iff: "str_endswith s suf \<longleftrightarrow> (\<exists>q. s = q @ suf)"
proof
  assume "str_endswith s suf"
  then have "s = take (length s - length suf) s @ suf"
    unfolding str_endswith_def by (metis append_take_drop_id)
  then show "\<exists>q. s = q @ suf" ..
qed (auto simp: str_endswith_def)

lemma str_endswith_append [simp]: "str_endswith (q @ suf) suf"
  by (auto simp: str_endswith_iff)

lemma str_rfind_take:
  "str_rfind p c < int n \<Longrightarrow> str_rfind (take n p) c = str_rfind p c"
proof (cases p c rule: str_rfind_cases)
  case 1
  then have "c \<notin> set (take n p)" by (meson in_set_takeD)
  with 1 show ?thesis by (simp add: str_rfind_notin)
next
  case (2 a b)
  assume "str_rfind p c < int n"
  then have "n - length a = Suc (n - Suc (length a))" using 2 by linarith
  with 2 have tk: "take n p = a @ c # take (n - Suc (length a)) b" by simp
  have "c \<notin> set (take (n - Suc (length a)) b)" using 2 by (meson in_set_takeD)
  then have "str_rfind (take n p) c = int (length a)" unfolding tk by (rule str_rfind_last)
  with 2 show ?thesis by simp
qed

lemma py_dirname_cong:
  "str_rfind x sep_char = str_rfind p sep_char \<Longrightarrow>
   take (nat (str_rfind p sep_char + 1)) x = take (nat (str_rfind p sep_char + 1)) p \<Longrightarrow>
   py_dirname x = py_dirname p"
  by (simp only: py_dirname_def Let_def)

lemma py_basename_last [py_simps]:
  assumes "sep_char \<notin> set b"
  shows "py_basename (a @ sep_char # b) = b"
proof -
  have "nat (int (length a) + 1) = Suc (length a)" by simp
  with assms show ?thesis by (simp add: py_basename_def str_rfind_last)
qed

lemma py_dirname_last:
  assumes "sep_char \<notin> set b" "ch \<noteq> []" "sep_char \<notin> set ch"
  shows "py_dirname (a @ sep_char # ch @ sep_char # b) = a @ sep_char # ch"
proof -
  let ?p = "a @ sep_char # ch @ sep_char # b"
  let ?head = "a @ sep_char # ch @ [sep_char]"
  obtain ys y where ch: "ch = ys @ [y]" using assms(2) by (metis append_butlast_last_id)
  have y: "y \<noteq> sep_char" using assms(3) ch by auto
  have r: "str_rfind ?p sep_char = int (length (a @ sep_char # ch))"
    using assms(1) str_rfind_last [of sep_char b "a @ sep_char # ch"] by simp
  have tk: "take (nat (str_rfind ?p sep_char + 1)) ?p = ?head"
  proof -
    have "nat (str_rfind ?p sep_char + 1) = Suc (length (a @ sep_char # ch))" using r by simp
    then show ?thesis by simp
  qed
  have strip: "str_rstrip ?head sep_char = a @ sep_char # ch"
    using y unfolding str_rstrip_def ch by simp
  have "set ?head \<noteq> {sep_char}" using y ch by auto
  then have "?head \<noteq> replicate (length ?head) sep_char" by (metis set_replicate list.distinct(1) length_0_conv append_is_Nil_conv)
  then have cond: "?head \<noteq> [] \<and> ?head \<noteq> replicate (length ?head) sep_char" by simp
  show ?thesis
    unfolding py_dirname_def Let_def tk by (simp only: if_P [OF cond] strip)
qed

lemma py_basename_dirname:
  "sep_char \<notin> set b \<Longrightarrow> ch \<noteq> [] \<Longrightarrow> sep_char \<notin> set ch \<Longrightarrow>
   py_basename (py_dirname (a @ sep_char # ch @ sep_char # b)) = ch"
  by (simp add: py_dirname_last py_basename_last)

subsection \<open>Lemmas: the transcript path\<close>

lemma transcript_path_mp4:
  "\<exists>c \<in> set (py_basename q). c \<noteq> dot_char \<Longrightarrow> transcript_path (q @ ''.mp4'') = q @ ''.txt''"
  by (simp add: transcript_path_def py_splitext_ext)

lemma transcript_path_dots:
  "\<not> (\<exists>c \<in> set (py_basename q). c \<noteq> dot_char) \<Longrightarrow> transcript_path (q @ ''.mp4'') = q @ ''.mp4.txt''"
  by (simp add: transcript_path_def py_splitext_ext)

lemma transcript_path_txt: "str_endswith (transcript_path p) ''.txt''"
  by (simp add: transcript_path_def)

text \<open>The transcript is never written over the video it transcribes: for a path ending in
  \<open>.mp4\<close>, the transcript path differs from it.\<close>

theorem transcript_path_not_video: "str_endswith p ''.mp4'' \<Longrightarrow> transcript_path p \<noteq> p"
  using transcript_path_txt [of p] by (auto simp: str_endswith_def)

lemma py_dirname_take_append:
  assumes "str_rfind p sep_char < int n" "n \<le> length p" "sep_char \<notin> set t"
  shows "py_dirname (take n p @ t) = py_dirname p"
proof (rule py_dirname_cong)
  show r: "str_rfind (take n p @ t) sep_char = str_rfind p sep_char"
    using assms by (simp add: str_rfind_append_notin str_rfind_take)
  have "nat (str_rfind p sep_char + 1) \<le> n" using assms(1) by linarith
  with assms(2) show "take (nat (str_rfind p sep_char + 1)) (take n p @ t) =
                      take (nat (str_rfind p sep_char + 1)) p"
    by (simp add: min_def)
qed

lemma py_splitext_concat: "fst (py_splitext p) @ snd (py_splitext p) = p"
  by (simp add: py_splitext_def Let_def)

lemma transcript_path_split:
  "transcript_path p =
     (if str_rfind p dot_char > str_rfind p sep_char \<and>
         skip_leading_dots p (str_rfind p sep_char + 1) (str_rfind p dot_char)
      then take (nat (str_rfind p dot_char)) p else p) @ ''.txt''"
  by (simp add: transcript_path_def py_splitext_def Let_def)

text \<open>Claim C19: the transcript is a sibling of the video: both paths have the same
  \<open>os.path.dirname\<close>, for every path.\<close>

theorem dirname_transcript_path: "py_dirname (transcript_path p) = py_dirname p"
proof -
  let ?s = "str_rfind p sep_char" and ?d = "str_rfind p dot_char"
  have bs: "?s < int (length p)" using str_rfind_bounds [of p sep_char] by simp
  have bd: "?d < int (length p)" using str_rfind_bounds [of p dot_char] by simp
  show ?thesis
  proof (cases "?d > ?s \<and> skip_leading_dots p (?s + 1) ?d")
    case True
    then have "transcript_path p = take (nat ?d) p @ ''.txt''"
      by (simp add: transcript_path_split)
    moreover have "?s < int (nat ?d)" "nat ?d \<le> length p" using True bd by linarith+
    ultimately show ?thesis by (simp add: py_dirname_take_append)
  next
    case False
    then have "transcript_path p = p @ ''.txt''"
      unfolding transcript_path_split by (rule arg_cong [OF if_not_P])
    moreover have "py_dirname (take (length p) p @ ''.txt'') = py_dirname p"
      using bs by (intro py_dirname_take_append) simp_all
    ultimately show ?thesis by simp
  qed
qed

lemma py_basename_append_nosep:
  "sep_char \<notin> set b \<Longrightarrow> py_basename (a @ b) = py_basename a @ b"
proof -
  assume b: "sep_char \<notin> set b"
  have "nat (str_rfind a sep_char + 1) \<le> length a"
    using str_rfind_bounds [of a sep_char] by linarith
  with b show ?thesis by (simp add: py_basename_def str_rfind_append_notin)
qed

lemma py_splitext_transcript:
  "py_splitext (transcript_path v) =
     (if \<exists>c \<in> set (py_basename (fst (py_splitext v))). c \<noteq> dot_char
      then (fst (py_splitext v), ''.txt'') else (transcript_path v, []))"
  using py_splitext_ext [of "''txt''" "fst (py_splitext v)"] by (simp add: transcript_path_def)

text \<open>Claim C21: the transcript path round-trips through \<open>splitext\<close>: for every video
  path ending in \<open>.mp4\<close>, splitting the transcript path gives back the video's stem with
  the extension \<open>.txt\<close>.\<close>

theorem transcript_path_roundtrip:
  assumes "str_endswith v ''.mp4''"
  shows "py_splitext (transcript_path v) = (fst (py_splitext v), ''.txt'')"
proof -
  obtain q where v: "v = q @ ''.mp4''" using assms by (auto simp: str_endswith_iff)
  have "\<exists>c \<in> set (py_basename (fst (py_splitext v))). c \<noteq> dot_char"
  proof (cases "\<exists>c \<in> set (py_basename q). c \<noteq> dot_char")
    case True
    then show ?thesis using py_splitext_ext [of "''mp4''" q] by (simp add: v)
  next
    case False
    then have "fst (py_splitext v) = q @ ''.mp4''" using py_splitext_ext [of "''mp4''" q] by (simp add: v)
    then show ?thesis by (simp add: py_basename_append_nosep)
  qed
  then show ?thesis by (simp only: py_splitext_transcript if_True)
qed

lemma str_rstrip_snoc: "str_rstrip (s @ [c]) c = str_rstrip s c"
  by (simp add: str_rstrip_def)

lemma py_dirname_snoc_sep:
  assumes "p \<noteq> []" "last p \<noteq> sep_char"
  shows "py_dirname (p @ [sep_char]) = p"
proof -
  have r: "str_rfind (p @ [sep_char]) sep_char = int (length p)"
    using str_rfind_last [of sep_char "[]" p] by simp
  have tk: "take (nat (str_rfind (p @ [sep_char]) sep_char + 1)) (p @ [sep_char]) = p @ [sep_char]"
    unfolding r by simp
  have "last p \<in> set (p @ [sep_char])" using assms(1) by simp
  then have "p @ [sep_char] \<noteq> replicate (length (p @ [sep_char])) sep_char"
    using assms(2) by (metis in_set_replicate)
  then have cond: "p @ [sep_char] \<noteq> [] \<and> p @ [sep_char] \<noteq> replicate (length (p @ [sep_char])) sep_char"
    by simp
  have strip: "str_rstrip (p @ [sep_char]) sep_char = p"
  proof -
    obtain ys y where p: "p = ys @ [y]" using assms(1) by (metis append_butlast_last_id)
    then have "y \<noteq> sep_char" using assms(2) by simp
    then show ?thesis unfolding p by (simp add: str_rstrip_def)
  qed
  show ?thesis unfolding py_dirname_def Let_def tk by (simp only: if_P [OF cond] strip)
qed

text \<open>Claim C20: \<open>splitext\<close> does not treat a leading dot as an extension separator,
  so for every stem whose file-name part is empty or only dots, the two distinct videos
  \<open>q.mp4\<close> and \<open>q.mp4.mp4\<close> of one directory are given the same transcript path, and
  the second transcript overwrites the first.\<close>

theorem transcript_path_collision:
  assumes "\<not> (\<exists>c \<in> set (py_basename q). c \<noteq> dot_char)"
  shows "q @ ''.mp4'' \<noteq> q @ ''.mp4.mp4'' \<and>
         transcript_path (q @ ''.mp4'') = transcript_path (q @ ''.mp4.mp4'')"
proof -
  have "\<exists>c \<in> set (py_basename (q @ ''.mp4'')). c \<noteq> dot_char"
    by (simp add: py_basename_append_nosep)
  then have "transcript_path ((q @ ''.mp4'') @ ''.mp4'') = (q @ ''.mp4'') @ ''.txt''"
    by (rule transcript_path_mp4)
  moreover have "transcript_path (q @ ''.mp4'') = q @ ''.mp4.txt''"
    using assms by (rule transcript_path_dots)
  ultimately show ?thesis by simp
qed

theorem transcript_path_collision_witness:
  "\<not> (\<exists>c \<in> set (py_basename ''d/''). c \<noteq> dot_char) \<and>
   ''d/.mp4'' \<noteq> ''d/.mp4.mp4'' \<and> transcript_path ''d/.mp4'' = transcript_path ''d/.mp4.mp4''"
proof -
  have h: "\<not> (\<exists>c \<in> set (py_basename ''d/''). c \<noteq> dot_char)"
    by (simp add: py_basename_def str_rfind_def)
  show ?thesis using transcript_path_collision [OF h] h by simp
qed

theorem transcript_path_roundtrip_witness:
  "str_endswith ''d/a.mp4'' ''.mp4'' \<and>
   py_splitext (transcript_path ''d/a.mp4'') = (fst (py_splitext ''d/a.mp4''), ''.txt'')"
  using transcript_path_roundtrip [of "''d/a.mp4''"] by (simp add: str_endswith_def)

end
