(* ===== verification/Language.thy ===== *)
theory Language
  imports PyPath
begin

text \<open>
  LanguageResolver: \<open>get_language_from_directory\<close> (lines 60--74 of the script).
  The channel folder is the parent of the date directory,
  \<open>os.path.basename(os.path.dirname(directory))\<close>, looked up in a fixed
  dictionary with \<open>''auto''\<close> (automatic language detection) as the default.
\<close>

text \<open>The dictionary \<open>language_map\<close> of lines 62--68, in the order of the literal.\<close>

definition language_map :: "(string \<times> string) list" where
  "language_map =
     [(''Channel 5'', ''en''), (''Channel 8'', ''cmn''), (''Channel U'', ''cmn''),
      (''Suria'', ''ms''), (''Vasantham'', ''ta'')]"

definition get_language_from_directory :: "path \<Rightarrow> string" where
  "get_language_from_directory directory =
     (let folder_name = py_basename (py_dirname directory)
      in dict_get language_map folder_name ''auto'')"

subsection \<open>Lemmas\<close>

lemma language_map_distinct: "distinct (map fst language_map)"
  by (simp add: language_map_def)

lemma get_language_channel_dir:
  assumes "sep_char \<notin> set day" "ch \<noteq> []" "sep_char \<notin> set ch"
  shows "get_language_from_directory (root @ sep_char # ch @ sep_char # day) =
         dict_get language_map ch ''auto''"
  using assms by (simp add: get_language_from_directory_def py_basename_dirname)

end
