(* ===== verification/Discovery.thy ===== *)
theory Discovery
  imports Language
begin

text \<open>
  WorkItemDiscoverer: the first half of \<open>process_and_upload_transcripts_in_parallel\<close>
  (lines 80--96 of the script). For each directory it resolves the language, deep-copies
  the global \<open>base_conf\<close> (lines 19--24), sets the copy's language, walks the directory
  with \<open>os.walk\<close> and appends one work item per \<open>.mp4\<close> file.

  The file system is a tree (\<open>fsnode\<close>) whose directories list their entries in the
  order \<open>os.scandir\<close> returns them; a path is resolved component by component from
  the root. The configuration dictionaries live in an explicit heap (a list indexed by
  address) because the script shares one configuration object between all work items of a
  directory, and whether two items alias is a property of the program.
\<close>

subsection \<open>The file system and \<open>os.walk\<close>\<close>

datatype fsnode = File | Dir "(string \<times> fsnode) list"

text \<open>Splitting a path at separators; empty components (from \<open>//\<close> or a leading or
  trailing \<open>/\<close>) resolve to nothing, as in POSIX path resolution.\<close>

fun split_sep_aux :: "string \<Rightarrow> string \<Rightarrow> string list" where
  "split_sep_aux cur [] = [rev cur]"
| "split_sep_aux cur (c # cs) =
     (if c = sep_char then rev cur # split_sep_aux [] cs else split_sep_aux (c # cur) cs)"

definition path_parts :: "path \<Rightarrow> string list" where
  "path_parts p = filter (\<lambda>x. x \<noteq> []) (split_sep_aux [] p)"

fun fs_lookup :: "fsnode \<Rightarrow> string list \<Rightarrow> fsnode option" where
  "fs_lookup n [] = Some n"
| "fs_lookup File (x # xs) = None"
| "fs_lookup (Dir es) (x # xs) = (case map_of es x of None \<Rightarrow> None | Some n \<Rightarrow> fs_lookup n xs)"

definition dir_names :: "(string \<times> fsnode) list \<Rightarrow> string list" where
  "dir_names es = map fst (filter (\<lambda>(n, c). c \<noteq> File) es)"

definition file_names :: "(string \<times> fsnode) list \<Rightarrow> string list" where
  "file_names es = map fst (filter (\<lambda>(n, c). c = File) es)"

text \<open>\<open>os.walk\<close> in its default top-down order: the triple \<open>(root, dirs, files)\<close> of a
  directory, then the walks of its subdirectories in listing order, each rooted at
  \<open>os.path.join(root, name)\<close>. A file yields nothing.\<close>

fun walk :: "path \<Rightarrow> fsnode \<Rightarrow> (path \<times> string list \<times> string list) list" where
  "walk top_dir File = []"
| "walk top_dir (Dir es) =
     (top_dir, dir_names es, file_names es) # concat (map (\<lambda>(n, c). walk (py_join top_dir n) c) es)"

text \<open>\<open>os.walk(top)\<close>: a path that does not exist or is not a directory makes
  \<open>os.scandir\<close> raise; with the default \<open>onerror=None\<close> the error is ignored and
  the walk is empty.\<close>

definition os_walk :: "fsnode \<Rightarrow> path \<Rightarrow> (path \<times> string list \<times> string list) list" where
  "os_walk fs top_dir = (case fs_lookup fs (path_parts top_dir) of None \<Rightarrow> [] | Some n \<Rightarrow> walk top_dir n)"

subsection \<open>Configurations on a heap\<close>

text \<open>The configuration dictionary \<open>{"type": ..., "transcription_config":
  {"operating_point": ..., "language": ...}}\<close>, flattened into one record; the
  \<open>"language"\<close> key is absent (\<open>None\<close>) in \<open>base_conf\<close>.\<close>

record conf =
  conf_type :: string
  operating_point :: string
  language :: "string option"

text \<open>The global \<open>base_conf\<close> of lines 19--24.\<close>

definition base_conf :: conf where
  "base_conf = \<lparr>conf_type = ''transcription'', operating_point = ''enhanced'', language = None\<rparr>"

text \<open>The heap of configuration objects: an address is an index; \<open>base_conf\<close> lives at
  address 0 from the start of the process.\<close>

type_synonym heap = "conf list"

definition base_addr :: nat where
  "base_addr = 0"

definition heap_init :: heap where
  "heap_init = [base_conf]"

text \<open>\<open>copy.deepcopy(obj)\<close> allocates a fresh object with the same contents (the nested
  dictionary is copied with it, so the copy shares nothing with the original).\<close>

definition deepcopy :: "heap \<Rightarrow> nat \<Rightarrow> heap \<times> nat" where
  "deepcopy h a = (h @ [h ! a], length h)"

text \<open>\<open>conf["transcription_config"]["language"] = language\<close>, a write through a
  reference.\<close>

definition set_language :: "heap \<Rightarrow> nat \<Rightarrow> string \<Rightarrow> heap" where
  "set_language h a l = h[a := (h ! a)\<lparr>language := Some l\<rparr>]"

subsection \<open>Work items\<close>

text \<open>A work item is the dictionary \<open>{"video_path": ..., "config": conf}\<close>: the path and
  a reference to the configuration object.\<close>

record work_item =
  video_path :: path
  config :: nat

record disc_state =
  heap :: heap
  items :: "work_item list"

text \<open>Lines 90--96: every file of every walked directory whose name ends with
  \<open>".mp4"\<close>, joined to its root, in walk order.\<close>

fun mp4_paths :: "(path \<times> string list \<times> string list) list \<Rightarrow> path list" where
  "mp4_paths [] = []"
| "mp4_paths ((root, _, files) # rest) =
     map (py_join root) (filter (\<lambda>file. str_endswith file ''.mp4'') files) @ mp4_paths rest"

text \<open>One iteration of the loop over \<open>directories\<close> (lines 82--96).\<close>

definition discover_directory :: "fsnode \<Rightarrow> disc_state \<Rightarrow> path \<Rightarrow> disc_state" where
  "discover_directory fs st directory =
     (let language = get_language_from_directory directory;
          (h, conf) = deepcopy (heap st) base_addr;
          h' = set_language h conf language;
          found = mp4_paths (os_walk fs directory)
      in \<lparr>heap = h', items = items st @ map (\<lambda>p. \<lparr>video_path = p, config = conf\<rparr>) found\<rparr>)"

definition discover_init :: disc_state where
  "discover_init = \<lparr>heap = heap_init, items = []\<rparr>"

text \<open>The whole gathering loop, \<open>video_files_and_configs\<close> built from an empty list.\<close>

definition gather_work_items :: "fsnode \<Rightarrow> path list \<Rightarrow> disc_state" where
  "gather_work_items fs directories =
     fold (\<lambda>d st. discover_directory fs st d) directories discover_init"

subsection \<open>The value-level specification\<close>

text \<open>What discovery promises, without references: the configuration each directory's
  items carry, and the items as pairs of a path and a configuration value.\<close>

definition dir_conf :: "path \<Rightarrow> conf" where
  "dir_conf d = base_conf\<lparr>language := Some (get_language_from_directory d)\<rparr>"

definition discover_spec :: "fsnode \<Rightarrow> path list \<Rightarrow> (path \<times> conf) list" where
  "discover_spec fs directories =
     concat (map (\<lambda>d. map (\<lambda>p. (p, dir_conf d)) (mp4_paths (os_walk fs d))) directories)"

text \<open>Reading the items back through the heap.\<close>

definition deref_items :: "disc_state \<Rightarrow> (path \<times> conf) list" where
  "deref_items st = map (\<lambda>i. (video_path i, heap st ! config i)) (items st)"

subsection \<open>Counting and addresses\<close>

text \<open>The \<open>.mp4\<close> files of a subtree, counted directly on the tree.\<close>

fun count_mp4 :: "fsnode \<Rightarrow> nat" where
  "count_mp4 File = 0"
| "count_mp4 (Dir es) =
     length (filter (\<lambda>(n, c). c = File \<and> str_endswith n ''.mp4'') es) + sum_list (map (\<lambda>(n, c). count_mp4 c) es)"

text \<open>The discovery invariant: the heap is non-empty, \<open>base_conf\<close> at its address is
  untouched, and every item refers to an allocated copy, never to \<open>base_conf\<close>.\<close>

definition disc_inv :: "disc_state \<Rightarrow> bool" where
  "disc_inv st \<longleftrightarrow> heap st \<noteq> [] \<and> heap st ! base_addr = base_conf \<and>
     (\<forall>i \<in> set (items st). base_addr < config i \<and> config i < length (heap st))"

text \<open>The address of every item when discovery allocates the copies from address \<open>a\<close> on:
  one address per directory, shared by all of its items.\<close>

fun item_addresses :: "nat \<Rightarrow> fsnode \<Rightarrow> path list \<Rightarrow> nat list" where
  "item_addresses a fs [] = []"
| "item_addresses a fs (d # ds) = replicate (length (mp4_paths (os_walk fs d))) a @ item_addresses (Suc a) fs ds"

subsection \<open>Lemmas: walking\<close>

lemma mp4_paths_append [simp]: "mp4_paths (xs @ ys) = mp4_paths xs @ mp4_paths ys"
  by (induction xs rule: mp4_paths.induct) simp_all

lemma mp4_paths_concat: "mp4_paths (concat xss) = concat (map mp4_paths xss)"
  by (induction xss) simp_all

lemma length_filter_file_names:
  "length (filter P (file_names es)) = length (filter (\<lambda>(n, c). c = File \<and> P n) es)"
  by (induction es) (auto simp: file_names_def)

lemma length_mp4_paths_walk: "length (mp4_paths (walk top_dir n)) = count_mp4 n"
proof (induction top_dir n rule: walk.induct)
  case (1 top_dir)
  then show ?case by simp
next
  case (2 top_dir es)
  have "length (concat (map mp4_paths (map (\<lambda>(n, c). walk (py_join top_dir n) c) es))) =
        sum_list (map (\<lambda>(n, c). count_mp4 c) es)"
    using "2.IH" by (induction es) auto
  then show ?case by (simp add: mp4_paths_concat length_filter_file_names)
qed

lemma py_join_endswith: "str_endswith b suf \<Longrightarrow> str_endswith (py_join a b) suf"
  by (auto simp: py_join_def str_endswith_iff)

lemma mp4_paths_endswith: "p \<in> set (mp4_paths w) \<Longrightarrow> str_endswith p ''.mp4''"
  by (induction w rule: mp4_paths.induct) (auto intro: py_join_endswith)

lemma mp4_paths_os_walk_empty: "mp4_paths (os_walk (Dir []) d) = []"
proof (cases "path_parts d")
  case Nil
  then show ?thesis by (simp add: os_walk_def file_names_def dir_names_def)
next
  case (Cons x xs)
  then show ?thesis by (simp add: os_walk_def)
qed

subsection \<open>Lemmas: one directory\<close>

lemma heap_discover_directory:
  assumes "heap st \<noteq> []" "heap st ! base_addr = base_conf"
  shows "heap (discover_directory fs st d) = heap st @ [dir_conf d]"
  using assms by (simp add: discover_directory_def deepcopy_def set_language_def dir_conf_def base_addr_def)

lemma items_discover_directory:
  "items (discover_directory fs st d) =
     items st @ map (\<lambda>p. \<lparr>video_path = p, config = length (heap st)\<rparr>) (mp4_paths (os_walk fs d))"
  by (simp add: discover_directory_def deepcopy_def set_language_def)

lemma disc_inv_init: "disc_inv discover_init"
  by (simp add: disc_inv_def discover_init_def heap_init_def base_addr_def)

lemma disc_inv_discover_directory:
  assumes "disc_inv st"
  shows "disc_inv (discover_directory fs st d)"
proof -
  have h: "heap (discover_directory fs st d) = heap st @ [dir_conf d]"
    using assms by (simp add: disc_inv_def heap_discover_directory)
  have "base_addr < length (heap st)" using assms by (simp add: disc_inv_def base_addr_def)
  with assms show ?thesis
    unfolding disc_inv_def h items_discover_directory by (auto simp: nth_append)
qed

lemma deref_items_discover_directory:
  assumes "disc_inv st"
  shows "deref_items (discover_directory fs st d) =
           deref_items st @ map (\<lambda>p. (p, dir_conf d)) (mp4_paths (os_walk fs d))"
proof -
  have h: "heap (discover_directory fs st d) = heap st @ [dir_conf d]"
    using assms by (simp add: disc_inv_def heap_discover_directory)
  have "\<forall>i \<in> set (items st). config i < length (heap st)" using assms by (simp add: disc_inv_def)
  then show ?thesis
    unfolding deref_items_def h items_discover_directory by (simp add: nth_append)
qed

subsection \<open>Lemmas: the gathering loop\<close>

lemma fold_discover_inv:
  "disc_inv st \<Longrightarrow> disc_inv (fold (\<lambda>d st. discover_directory fs st d) ds st)"
  by (induction ds arbitrary: st) (simp_all add: disc_inv_discover_directory)

lemma fold_discover_heap:
  "disc_inv st \<Longrightarrow> heap (fold (\<lambda>d st. discover_directory fs st d) ds st) = heap st @ map dir_conf ds"
proof (induction ds arbitrary: st)
  case (Cons d ds)
  from Cons.prems have "disc_inv (discover_directory fs st d)" by (rule disc_inv_discover_directory)
  with Cons show ?case by (simp add: heap_discover_directory disc_inv_def)
qed simp

lemma fold_discover_deref:
  "disc_inv st \<Longrightarrow>
   deref_items (fold (\<lambda>d st. discover_directory fs st d) ds st) = deref_items st @ discover_spec fs ds"
proof (induction ds arbitrary: st)
  case (Cons d ds)
  from Cons.prems have "disc_inv (discover_directory fs st d)" by (rule disc_inv_discover_directory)
  with Cons show ?case by (simp add: deref_items_discover_directory discover_spec_def)
qed (simp add: discover_spec_def)

lemma fold_discover_addresses:
  "disc_inv st \<Longrightarrow>
   map config (items (fold (\<lambda>d st. discover_directory fs st d) ds st)) =
     map config (items st) @ item_addresses (length (heap st)) fs ds"
proof (induction ds arbitrary: st)
  case (Cons d ds)
  from Cons.prems have "disc_inv (discover_directory fs st d)" by (rule disc_inv_discover_directory)
  with Cons show ?case
    by (simp add: heap_discover_directory items_discover_directory disc_inv_def comp_def map_replicate_const)
qed simp

subsection \<open>Properties\<close>

lemma gather_video_paths:
  "map video_path (items (gather_work_items fs directories)) = map fst (discover_spec fs directories)"
proof -
  have "deref_items (gather_work_items fs directories) = discover_spec fs directories"
    using fold_discover_deref [OF disc_inv_init] by (simp add: gather_work_items_def deref_items_def discover_init_def)
  then have "map fst (deref_items (gather_work_items fs directories)) = map fst (discover_spec fs directories)"
    by simp
  then show ?thesis by (simp add: deref_items_def comp_def)
qed

lemma gather_items_mp4:
  "i \<in> set (items (gather_work_items fs directories)) \<Longrightarrow> str_endswith (video_path i) ''.mp4''"
proof -
  assume "i \<in> set (items (gather_work_items fs directories))"
  then have "video_path i \<in> set (map fst (discover_spec fs directories))"
    by (metis gather_video_paths image_eqI set_map)
  then show ?thesis by (auto simp: discover_spec_def intro: mp4_paths_endswith)
qed

lemma gather_deref_nth:
  assumes "i < length (items (gather_work_items fs directories))"
  shows "(video_path (items (gather_work_items fs directories) ! i),
          heap (gather_work_items fs directories) ! config (items (gather_work_items fs directories) ! i))
         = discover_spec fs directories ! i"
proof -
  have "deref_items (gather_work_items fs directories) = discover_spec fs directories"
    using fold_discover_deref [OF disc_inv_init] by (simp add: gather_work_items_def deref_items_def discover_init_def)
  then have "discover_spec fs directories ! i = deref_items (gather_work_items fs directories) ! i" by simp
  also have "\<dots> = (video_path (items (gather_work_items fs directories) ! i),
          heap (gather_work_items fs directories) ! config (items (gather_work_items fs directories) ! i))"
    unfolding deref_items_def using assms by (rule nth_map)
  finally show ?thesis by simp
qed

lemma gather_items_language:
  assumes "i < length (items (gather_work_items fs directories))"
  shows "\<exists>lang. language (heap (gather_work_items fs directories) ! config (items (gather_work_items fs directories) ! i)) = Some lang"
proof -
  let ?st = "gather_work_items fs directories"
  have len: "i < length (discover_spec fs directories)"
    using assms arg_cong [OF gather_video_paths, of length] by simp
  then have "discover_spec fs directories ! i \<in> set (discover_spec fs directories)" by simp
  then obtain d p where "discover_spec fs directories ! i = (p, dir_conf d)"
    by (auto simp: discover_spec_def)
  with gather_deref_nth [OF assms] show ?thesis by (simp add: dir_conf_def)
qed

text \<open>Claim C13: discovery refines its value-level specification: reading every work item's
  configuration through the heap gives, directory by directory and in walk order, each
  \<open>.mp4\<close> file paired with \<open>base_conf\<close> whose language is the directory's.\<close>

theorem gather_work_items_refines:
  "deref_items (gather_work_items fs directories) = discover_spec fs directories"
  using fold_discover_deref [OF disc_inv_init] by (simp add: gather_work_items_def deref_items_def discover_init_def)

text \<open>Claim C14: the deep copy isolates the global configuration: after discovery the heap
  holds \<open>base_conf\<close> unchanged and exactly one fresh configuration per directory.\<close>

theorem gather_work_items_heap:
  "heap (gather_work_items fs directories) = base_conf # map dir_conf directories"
  using fold_discover_heap [OF disc_inv_init] by (simp add: gather_work_items_def discover_init_def heap_init_def)

text \<open>Claim C15: the copy is made per directory, not per item: the items of one directory all
  refer to that directory's configuration object (addresses 1, 2, ... in directory order),
  so they alias one another.\<close>

theorem gather_work_items_addresses:
  "map config (items (gather_work_items fs directories)) = item_addresses 1 fs directories"
  using fold_discover_addresses [OF disc_inv_init] by (simp add: gather_work_items_def discover_init_def heap_init_def)

text \<open>Claim C16: discovery finds every video exactly once: the number of work items is the
  number of \<open>.mp4\<close> files in the subtrees of the listed directories, a directory that
  does not exist contributing none.\<close>

theorem gather_work_items_count:
  "length (items (gather_work_items fs directories)) =
     sum_list (map (\<lambda>d. case fs_lookup fs (path_parts d) of None \<Rightarrow> 0 | Some n \<Rightarrow> count_mp4 n) directories)"
proof -
  have "length (items (gather_work_items fs directories)) = length (discover_spec fs directories)"
    using arg_cong [OF gather_video_paths, of length fs directories] by simp
  also have "\<dots> = sum_list (map (\<lambda>d. case fs_lookup fs (path_parts d) of None \<Rightarrow> 0 | Some n \<Rightarrow> count_mp4 n) directories)"
    by (induction directories)
       (simp_all add: discover_spec_def os_walk_def length_mp4_paths_walk split: option.splits)
  finally show ?thesis .
qed

end
