(* ===== verification/Client.thy ===== *)
theory Client
  imports Discovery
begin

text \<open>
  TranscriptionClient: the interface the script consumes from the \<open>speechmatics\<close>
  \<open>BatchClient\<close> and from the operating system. The remote service is not
  implemented here; a \<open>service\<close> record gives its answer to each call the workers make,
  an exception or a value. Exceptions are values of \<open>exc\<close>: \<open>httpx.HTTPStatusError\<close>
  with the response's status code and body, and every other exception with its class name
  and \<open>str(e)\<close>.
\<close>

subsection \<open>Connection settings\<close>

text \<open>Lines 10--16: the API key and the \<open>ConnectionSettings\<close> the batch client is built
  from. Only the two fields the script sets are modelled.\<close>

definition API_KEY :: string where
  "API_KEY = ''0000''"

record connection_settings =
  url :: string
  auth_token :: string

definition settings :: connection_settings where
  "settings = \<lparr>url = ''https://asr.api.speechmatics.com/v2'', auth_token = API_KEY\<rparr>"

text \<open>The argument a \<open>BatchClient\<close> is constructed with: the batch passes \<open>settings\<close>
  (line 78), the two utilities pass the bare key (lines 30 and 50), which leaves the URL to
  the library's default.\<close>

datatype client_arg = AuthToken string | Settings connection_settings

definition batch_client_arg :: client_arg where
  "batch_client_arg = Settings settings"

definition utility_client_arg :: client_arg where
  "utility_client_arg = AuthToken API_KEY"

subsection \<open>Exceptions and responses\<close>

text \<open>The body of an HTTP error response, as \<open>e.response.json()\<close> sees it: a JSON object
  (its members printed as \<open>str\<close>), another JSON value (with its Python type name), or
  text that is not JSON (with the decoder's message).\<close>

datatype json_body = JsonObject "(string \<times> string) list" | JsonOther string | NotJson string

datatype exc =
    HTTPStatusError nat json_body string
  | OtherException string string

text \<open>\<open>str(e)\<close>.\<close>

fun exc_str :: "exc \<Rightarrow> string" where
  "exc_str (HTTPStatusError code body msg) = msg"
| "exc_str (OtherException name msg) = msg"

text \<open>\<open>e.response.json().get("detail", "Unknown error")\<close> (line 129): decoding a non-JSON
  body raises \<open>JSONDecodeError\<close>, and \<open>.get\<close> on a JSON value that is not an object
  raises \<open>AttributeError\<close>.\<close>

definition response_detail :: "json_body \<Rightarrow> exc + string" where
  "response_detail body =
     (case body of
        JsonObject members \<Rightarrow> Inr (dict_get members ''detail'' ''Unknown error'')
      | JsonOther tname \<Rightarrow>
          Inl (OtherException ''AttributeError''
                 (squote # tname @ squote # '' object has no attribute '' @ squote # ''get'' @ [squote]))
      | NotJson msg \<Rightarrow> Inl (OtherException ''JSONDecodeError'' msg))"

subsection \<open>The service interface\<close>

text \<open>The answers of the calls a worker makes: \<open>client.submit_job(audio, transcription_config)\<close>
  (a job id or an exception), \<open>client.wait_for_completion(job_id, transcription_format)\<close>
  (the transcript text or an exception), and \<open>open(path, "w")\<close> (an \<open>OSError\<close> or
  success).\<close>

record service =
  submit_job :: "path \<Rightarrow> conf \<Rightarrow> exc + string"
  wait_for_completion :: "string \<Rightarrow> string \<Rightarrow> exc + string"
  open_write :: "path \<Rightarrow> exc option"

text \<open>What a worker does to the outside world: a line on standard output or a file
  written (created or truncated, then filled).\<close>

datatype effect = Print string | WriteFile path string

subsection \<open>Lemmas\<close>

lemma response_detail_Inr_iff:
  "(\<exists>d. response_detail body = Inr d) \<longleftrightarrow> (\<exists>members. body = JsonObject members)"
  by (cases body) (simp_all add: response_detail_def)

end
