(* ===== verification/Worker.thy ===== *)
theory Worker
  imports Client
begin

text \<open>
  The per-item worker \<open>process_single_file\<close> (lines 99--133 of the script), nested in
  \<open>process_and_upload_transcripts_in_parallel\<close>. It reads the item's configuration
  through its reference, prints a start line, and inside one \<open>try\<close> submits the job,
  waits for the transcript in \<open>srt\<close> format and writes it next to the video. The
  handlers classify \<open>HTTPStatusError\<close> by status code (401, 400, other) and catch every
  other exception. The worker's result is the list of its effects and the exception that
  escapes it, if any.
\<close>

subsection \<open>Definitions\<close>

text \<open>The two \<open>except\<close> clauses of lines 125--133. An exception raised inside the
  first handler (by \<open>e.response.json().get(...)\<close>) is not caught by the second clause
  and escapes the worker.\<close>

definition handle_exception :: "path \<Rightarrow> exc \<Rightarrow> effect list \<times> exc option" where
  "handle_exception vpath e =
     (case e of
        HTTPStatusError code body msg \<Rightarrow>
          (if code = 401 then ([Print ''Invalid API key - Check your API_KEY!''], None)
           else if code = 400 then
             (case response_detail body of
                Inr detail \<Rightarrow> ([Print detail], None)
              | Inl e' \<Rightarrow> ([], Some e'))
           else ([Print (''HTTP error for '' @ vpath @ '': '' @ msg)], None))
      | OtherException name msg \<Rightarrow> ([Print (''Error processing '' @ vpath @ '': '' @ msg)], None))"

text \<open>Effects performed before an exception, followed by its handler's.\<close>

definition after :: "effect list \<Rightarrow> effect list \<times> exc option \<Rightarrow> effect list \<times> exc option" where
  "after done r = (done @ fst r, snd r)"

text \<open>Lines 99--133 (\<open>vpath\<close> is the local \<open>video_path\<close>). The configuration
  is read through the item's reference; its \<open>"language"\<close> key is read in the f-string of line 103, before the \<open>try\<close>, so a
  missing key raises \<open>KeyError\<close> out of the worker.\<close>

definition process_single_file :: "service \<Rightarrow> heap \<Rightarrow> work_item \<Rightarrow> effect list \<times> exc option" where
  "process_single_file svc h file_info =
     (let vpath = video_path file_info; conf = h ! config file_info
      in case language conf of
           None \<Rightarrow> ([], Some (OtherException ''KeyError'' (squote # ''language'' @ [squote])))
         | Some lang \<Rightarrow>
           (let started = [Print (''Processing file: '' @ vpath @ '' with language '' @ lang)]
            in case submit_job svc vpath conf of
                 Inl e \<Rightarrow> after started (handle_exception vpath e)
               | Inr job_id \<Rightarrow>
                 (let submitted = started @ [Print (''Job '' @ job_id @ '' submitted for '' @ vpath
                                                     @ '', waiting for transcription...'')]
                  in case wait_for_completion svc job_id ''srt'' of
                       Inl e \<Rightarrow> after submitted (handle_exception vpath e)
                     | Inr transcript \<Rightarrow>
                       (let retrieved = submitted @ [Print (''Transcript retrieved for '' @ vpath)];
                            tpath = transcript_path vpath
                        in case open_write svc tpath of
                             Some e \<Rightarrow> after retrieved (handle_exception vpath e)
                           | None \<Rightarrow> (retrieved @ [WriteFile tpath transcript,
                                                   Print (''Transcript saved to '' @ tpath)], None)))))"

text \<open>The exceptions that escape the handlers: an HTTP 400 whose body is not a JSON object.\<close>


definition escapes :: "exc \<Rightarrow> bool" where
  "escapes e \<longleftrightarrow> (\<exists>body msg. e = HTTPStatusError 400 body msg \<and> (\<forall>m. body \<noteq> JsonObject m))"

subsection \<open>Lemmas\<close>

lemma handle_exception_no_write: "WriteFile q c \<notin> set (fst (handle_exception p e))"
  by (auto simp: handle_exception_def split: exc.splits sum.splits)

lemma handle_exception_raises_iff: "snd (handle_exception p e) \<noteq> None \<longleftrightarrow> escapes e"
  by (auto simp: handle_exception_def escapes_def response_detail_def split: exc.splits json_body.splits)

lemma process_single_file_success:
  assumes "language (h ! config fi) = Some lang"
    and "submit_job svc (video_path fi) (h ! config fi) = Inr job_id"
    and "wait_for_completion svc job_id ''srt'' = Inr transcript"
    and "open_write svc (transcript_path (video_path fi)) = None"
  shows "process_single_file svc h fi =
    ([Print (''Processing file: '' @ video_path fi @ '' with language '' @ lang),
      Print (''Job '' @ job_id @ '' submitted for '' @ video_path fi @ '', waiting for transcription...''),
      Print (''Transcript retrieved for '' @ video_path fi),
      WriteFile (transcript_path (video_path fi)) transcript,
      Print (''Transcript saved to '' @ transcript_path (video_path fi))], None)"
  using assms by (simp add: process_single_file_def Let_def)

lemma process_single_file_write_path:
  "WriteFile q c \<in> set (fst (process_single_file svc h fi)) \<Longrightarrow> q = transcript_path (video_path fi)"
  using handle_exception_no_write
  by (auto simp: process_single_file_def Let_def after_def split: option.splits sum.splits)

lemma handle_exception_raises:
  "snd (handle_exception p e0) = Some e \<Longrightarrow>
   \<exists>body msg. e0 = HTTPStatusError 400 body msg \<and> response_detail body = Inl e"
  by (auto simp: handle_exception_def split: exc.splits if_splits sum.splits)

lemma process_single_file_raises_400:
  assumes "language (h ! config fi) = Some lang" "snd (process_single_file svc h fi) = Some e"
  shows "\<exists>body msg. response_detail body = Inl e \<and>
           (submit_job svc (video_path fi) (h ! config fi) = Inl (HTTPStatusError 400 body msg) \<or>
            (\<exists>job_id. submit_job svc (video_path fi) (h ! config fi) = Inr job_id \<and>
               (wait_for_completion svc job_id ''srt'' = Inl (HTTPStatusError 400 body msg) \<or>
                (\<exists>t. wait_for_completion svc job_id ''srt'' = Inr t \<and>
                     open_write svc (transcript_path (video_path fi)) = Some (HTTPStatusError 400 body msg)))))"
proof (cases "submit_job svc (video_path fi) (h ! config fi)")
  case (Inl e0)
  then have "snd (handle_exception (video_path fi) e0) = Some e"
    using assms by (simp add: process_single_file_def Let_def after_def)
  then show ?thesis using Inl handle_exception_raises by blast
next
  case (Inr job_id)
  show ?thesis
  proof (cases "wait_for_completion svc job_id ''srt''")
    case (Inl e0)
    then have "snd (handle_exception (video_path fi) e0) = Some e"
      using assms Inr by (simp add: process_single_file_def Let_def after_def)
    then show ?thesis using Inr Inl handle_exception_raises by blast
  next
    case (Inr t)
    note sub = \<open>submit_job svc (video_path fi) (h ! config fi) = Inr job_id\<close>
    show ?thesis
    proof (cases "open_write svc (transcript_path (video_path fi))")
      case None
      then show ?thesis using assms sub Inr by (simp add: process_single_file_def Let_def)
    next
      case (Some e0)
      then have "snd (handle_exception (video_path fi) e0) = Some e"
        using assms sub Inr by (simp add: process_single_file_def Let_def after_def)
      then show ?thesis using sub Inr Some handle_exception_raises by blast
    qed
  qed
qed

text \<open>Claim C7: a worker writes at most its own transcript: every file it writes is the
  transcript path of its video, and only after the job was submitted and its transcript
  retrieved, with that transcript as content.\<close>

theorem process_single_file_writes:
  assumes "WriteFile q c \<in> set (fst (process_single_file svc h fi))"
  shows "q = transcript_path (video_path fi) \<and>
         (\<exists>job_id. submit_job svc (video_path fi) (h ! config fi) = Inr job_id \<and>
                   wait_for_completion svc job_id ''srt'' = Inr c)"
  using assms handle_exception_no_write
  by (auto simp: process_single_file_def Let_def after_def split: option.splits sum.splits)

text \<open>Claim C5: the only exceptions that escape \<open>process_single_file\<close> are the
  \<open>KeyError\<close> of a configuration without a language and those raised while reading the
  body of an HTTP 400 response that is not a JSON object; every other failure is caught.\<close>

theorem process_single_file_escapes:
  assumes "snd (process_single_file svc h fi) = Some e"
  shows "language (h ! config fi) = None \<or>
         (\<exists>e0. escapes e0 \<and>
            (submit_job svc (video_path fi) (h ! config fi) = Inl e0 \<or>
             (\<exists>job_id. submit_job svc (video_path fi) (h ! config fi) = Inr job_id \<and>
                (wait_for_completion svc job_id ''srt'' = Inl e0 \<or>
                 (\<exists>t. wait_for_completion svc job_id ''srt'' = Inr t \<and>
                      open_write svc (transcript_path (video_path fi)) = Some e0)))))"
proof -
  have "\<And>e0. snd (handle_exception (video_path fi) e0) = Some e \<Longrightarrow> escapes e0"
    using handle_exception_raises_iff by fastforce
  with assms show ?thesis
    by (auto simp: process_single_file_def Let_def after_def split: option.splits sum.splits)
qed

text \<open>Claim C8: when the job is submitted but waiting for it fails with HTTP 404, the worker
  prints the generic \<open>HTTP error\<close> line, writes nothing and returns normally: the code
  has no separate not-found classification on the batch path.\<close>

theorem process_single_file_404:
  assumes "language (h ! config fi) = Some lang"
    and "submit_job svc (video_path fi) (h ! config fi) = Inr job_id"
    and "wait_for_completion svc job_id ''srt'' = Inl (HTTPStatusError 404 body msg)"
  shows "process_single_file svc h fi =
    ([Print (''Processing file: '' @ video_path fi @ '' with language '' @ lang),
      Print (''Job '' @ job_id @ '' submitted for '' @ video_path fi @ '', waiting for transcription...''),
      Print (''HTTP error for '' @ video_path fi @ '': '' @ msg)], None)"
  using assms by (simp add: process_single_file_def Let_def after_def handle_exception_def)

text \<open>Claim C9: a worker's outcome depends only on the service's answers for its own
  video: two services that agree on this item's submission, on waiting for the job that
  submission returned, and on opening this item's transcript give the same effects and the same escaping exception.\<close>

theorem process_single_file_local:
  assumes "submit_job svc' (video_path fi) (h ! config fi) = submit_job svc (video_path fi) (h ! config fi)"
    and "\<forall>job_id. submit_job svc (video_path fi) (h ! config fi) = Inr job_id \<longrightarrow>
           wait_for_completion svc' job_id ''srt'' = wait_for_completion svc job_id ''srt''"
    and "open_write svc' (transcript_path (video_path fi)) = open_write svc (transcript_path (video_path fi))"
  shows "process_single_file svc' h fi = process_single_file svc h fi"
proof (cases "language (h ! config fi)")
  case None
  then show ?thesis by (simp add: process_single_file_def)
next
  case (Some lang)
  show ?thesis
  proof (cases "submit_job svc (video_path fi) (h ! config fi)")
    case (Inl e)
    then show ?thesis using Some assms(1) by (simp add: process_single_file_def Let_def)
  next
    case (Inr job_id)
    then have w: "wait_for_completion svc' job_id ''srt'' = wait_for_completion svc job_id ''srt''"
      using assms(2) by simp
    show ?thesis
    proof (cases "wait_for_completion svc job_id ''srt''")
      case (Inl e)
      then show ?thesis using Some Inr w assms(1) by (simp add: process_single_file_def Let_def)
    next
      case (Inr t)
      then show ?thesis using Some \<open>submit_job svc (video_path fi) (h ! config fi) = Inr job_id\<close> w assms(1,3)
        by (simp add: process_single_file_def Let_def)
    qed
  qed
qed

end
