(* ===== verification/Pool.thy ===== *)
theory Pool
  imports Prelude
begin

text \<open>
  The bounded worker pool of lines 135--145: \<open>ThreadPoolExecutor(max_workers=8)\<close>, one
  \<open>executor.submit\<close> per work item, \<open>as_completed\<close> over the futures and the
  \<open>with\<close> block that waits for every thread. The executor queues submitted tasks in
  FIFO order and runs at most \<open>max_workers\<close> of them at a time; which running task
  finishes next is up to the scheduler and the remote service. The pool is therefore a
  relation: a step starts the next queued task when a worker is free, or finishes any
  running task, recording its result in completion order (the order in which
  \<open>as_completed\<close> yields the futures). A task is atomic here: its effects are
  recorded when it finishes. The pool is generic in the task and result types; the
  orchestrator instantiates it with the work-item indices and \<open>process_single_file\<close>.
\<close>

subsection \<open>Definitions\<close>

record ('t, 'r) pool =
  pending :: "'t list"
  running :: "'t list"
  completed :: "('t \<times> 'r) list"

definition pool_init :: "'t list \<Rightarrow> ('t, 'r) pool" where
  "pool_init ts = \<lparr>pending = ts, running = [], completed = []\<rparr>"

inductive pool_step :: "nat \<Rightarrow> ('t \<Rightarrow> 'r) \<Rightarrow> ('t, 'r) pool \<Rightarrow> ('t, 'r) pool \<Rightarrow> bool"
  for max_workers :: nat and work :: "'t \<Rightarrow> 'r" where
  start: "pending s = t # ts \<Longrightarrow> length (running s) < max_workers \<Longrightarrow>
          pool_step max_workers work s (s\<lparr>pending := ts, running := running s @ [t]\<rparr>)"
| finish: "t \<in> set (running s) \<Longrightarrow>
          pool_step max_workers work s
            (s\<lparr>running := remove1 t (running s), completed := completed s @ [(t, work t)]\<rparr>)"

definition pool_reachable :: "nat \<Rightarrow> ('t \<Rightarrow> 'r) \<Rightarrow> 't list \<Rightarrow> ('t, 'r) pool \<Rightarrow> bool" where
  "pool_reachable max_workers work ts s \<longleftrightarrow> (pool_step max_workers work)\<^sup>*\<^sup>* (pool_init ts) s"

text \<open>The \<open>with\<close> block exits when nothing is queued or running.\<close>

definition pool_final :: "('t, 'r) pool \<Rightarrow> bool" where
  "pool_final s \<longleftrightarrow> pending s = [] \<and> running s = []"

text \<open>The pool invariant: every task is in exactly one place (queued, running or
  completed), at most \<open>max_workers\<close> run, every recorded result is the task's own, and
  the queue is a suffix of the submission order.\<close>

definition pool_inv :: "nat \<Rightarrow> ('t \<Rightarrow> 'r) \<Rightarrow> 't list \<Rightarrow> ('t, 'r) pool \<Rightarrow> bool" where
  "pool_inv max_workers work ts s \<longleftrightarrow>
     mset (pending s) + mset (running s) + mset (map fst (completed s)) = mset ts \<and>
     length (running s) \<le> max_workers \<and>
     (\<forall>(t, r) \<in> set (completed s). r = work t) \<and>
     (\<exists>k. pending s = drop k ts)"

subsection \<open>Lemmas\<close>

inductive_cases pool_stepE: "pool_step m w s s'"

lemma pool_inv_init: "pool_inv m w ts (pool_init ts)"
  by (auto simp: pool_inv_def pool_init_def intro: exI [of _ 0])

lemma pool_step_inv:
  assumes "pool_step m w s s'" "pool_inv m w ts s"
  shows "pool_inv m w ts s'"
  using assms
proof (induction rule: pool_step.induct)
  case (start s t ts')
  then obtain k where k: "pending s = drop k ts" by (auto simp: pool_inv_def)
  with start.hyps(1) have "ts' = drop (Suc k) ts" by (metis drop_Suc list.sel(3) tl_drop)
  with start show ?case by (auto simp: pool_inv_def)
next
  case (finish t s)
  have rm: "mset (remove1 t (running s)) + {#t#} = mset (running s)"
    using finish.hyps by simp
  have "mset (pending s) + mset (remove1 t (running s)) + mset (map fst (completed s @ [(t, w t)])) =
        mset (pending s) + (mset (remove1 t (running s)) + {#t#}) + mset (map fst (completed s))"
    by (simp add: ac_simps)
  also have "\<dots> = mset ts" using rm finish.prems by (simp add: pool_inv_def)
  finally have ms: "mset (pending s) + mset (remove1 t (running s)) + mset (map fst (completed s @ [(t, w t)])) =
                    mset ts" .
  have "length (remove1 t (running s)) \<le> m"
    using finish.prems by (simp add: pool_inv_def length_remove1) (meson diff_le_self le_trans)
  with ms finish.prems show ?case by (auto simp: pool_inv_def)
qed

lemma pool_reachable_inv: "pool_reachable m w ts s \<Longrightarrow> pool_inv m w ts s"
  unfolding pool_reachable_def
proof (induction rule: rtranclp_induct)
  case base
  then show ?case by (rule pool_inv_init)
next
  case (step s s')
  then show ?case by (blast intro: pool_step_inv)
qed

lemma pool_final_completed:
  assumes "pool_inv m w ts s" "pool_final s"
  shows "mset (completed s) = mset (map (\<lambda>t. (t, w t)) ts)"
proof -
  have fst_eq: "mset (map fst (completed s)) = mset ts"
    using assms by (simp add: pool_inv_def pool_final_def)
  have "completed s = map (\<lambda>t. (t, w t)) (map fst (completed s))"
    using assms(1) by (auto simp: pool_inv_def intro!: map_idI [symmetric])
  then have "mset (completed s) = image_mset (\<lambda>t. (t, w t)) (mset (map fst (completed s)))"
    by (metis mset_map)
  then show ?thesis using fst_eq by simp
qed

subsection \<open>Properties\<close>

text \<open>The executor starts tasks in submission order: in every reachable state the
  queue is a suffix of the submitted list, and the tasks started so far (running or
  completed) are exactly the prefix before it.\<close>

lemma pool_fifo:
  assumes "pool_reachable m w ts s"
  shows "\<exists>k. pending s = drop k ts \<and>
             mset (running s) + mset (map fst (completed s)) = mset (take k ts)"
proof -
  have inv: "pool_inv m w ts s" using assms by (rule pool_reachable_inv)
  then obtain k where k: "pending s = drop k ts" by (auto simp: pool_inv_def)
  have "mset (drop k ts) + (mset (running s) + mset (map fst (completed s))) =
        mset (drop k ts) + mset (take k ts)"
    using inv k by (simp add: pool_inv_def add.assoc) (metis append_take_drop_id mset_append add.commute)
  then show ?thesis using k by auto
qed

end
