(* ===== verification/Batch.thy ===== *)
theory Batch
  imports Worker Pool
begin

text \<open>
  BatchOrchestrator: \<open>process_and_upload_transcripts_in_parallel(directories)\<close>
  (lines 77--145). Discovery gathers the work items; the pool runs
  \<open>process_single_file\<close> on each of them with at most eight at a time; the main thread
  iterates \<open>as_completed(futures)\<close>, calling \<open>future.result()\<close> inside a
  \<open>try\<close> that prints any exception that escaped a worker. A run of a batch is a
  sequence of pool steps from the submitted futures to a drained pool; its observable
  output is the effect log in completion order.
\<close>

subsection \<open>Definitions\<close>

text \<open>\<open>ThreadPoolExecutor(max_workers=8)\<close>.\<close>

definition max_workers :: nat where
  "max_workers = 8"

text \<open>One future per work item, in submission order; a future is the index of its item.\<close>

definition batch_tasks :: "disc_state \<Rightarrow> nat list" where
  "batch_tasks st = [0..<length (items st)]"

definition batch_work :: "service \<Rightarrow> disc_state \<Rightarrow> nat \<Rightarrow> effect list \<times> exc option" where
  "batch_work svc st i = process_single_file svc (heap st) (items st ! i)"

text \<open>The body of the \<open>as_completed\<close> loop (lines 141--145) for one finished future.\<close>

fun report_future :: "effect list \<times> exc option \<Rightarrow> effect list" where
  "report_future (effs, None) = effs"
| "report_future (effs, Some e) = effs @ [Print (''Error occurred in thread: '' @ exc_str e)]"

definition batch_log :: "(nat \<times> (effect list \<times> exc option)) list \<Rightarrow> effect list" where
  "batch_log done = concat (map (report_future \<circ> snd) done)"

text \<open>A complete run of one batch: the futures of the gathered items, driven by pool
  steps until the executor has drained; \<open>done\<close> lists the finished futures in the order
  \<open>as_completed\<close> yields them.\<close>

inductive batch_run :: "service \<Rightarrow> fsnode \<Rightarrow> path list \<Rightarrow> (nat \<times> (effect list \<times> exc option)) list \<Rightarrow> bool" where
  "st = gather_work_items fs directories \<Longrightarrow>
   pool_reachable max_workers (batch_work svc st) (batch_tasks st) s \<Longrightarrow> pool_final s \<Longrightarrow>
   batch_run svc fs directories (completed s)"

subsection \<open>Lemmas\<close>

inductive_cases batch_runE: "batch_run svc fs directories done"

lemma max_workers_pos: "0 < max_workers"
  by (simp add: max_workers_def)

lemma batch_run_mset:
  assumes "batch_run svc fs directories done"
  shows "mset done = mset (map (\<lambda>i. (i, batch_work svc (gather_work_items fs directories) i))
                              (batch_tasks (gather_work_items fs directories)))"
  using assms
proof cases
  case (1 st s)
  then have "pool_inv max_workers (batch_work svc st) (batch_tasks st) s"
    by (simp add: pool_reachable_inv)
  with 1 show ?thesis by (simp add: pool_final_completed)
qed

lemma batch_run_in_done:
  assumes "batch_run svc fs directories done"
    and "i < length (items (gather_work_items fs directories))"
  shows "(i, batch_work svc (gather_work_items fs directories) i) \<in> set done"
proof -
  let ?st = "gather_work_items fs directories"
  have "(i, batch_work svc ?st i) \<in> set (map (\<lambda>i. (i, batch_work svc ?st i)) (batch_tasks ?st))"
    using assms(2) by (simp add: batch_tasks_def)
  then show ?thesis using batch_run_mset [OF assms(1)] by (metis set_mset_mset)
qed

lemma set_batch_log: "set (batch_log done) = (\<Union>x \<in> set done. set (report_future (snd x)))"
  by (simp add: batch_log_def)

lemma batch_run_done_set:
  assumes "batch_run svc fs directories done"
  shows "set done = (\<lambda>i. (i, batch_work svc (gather_work_items fs directories) i)) `
                    {..<length (items (gather_work_items fs directories))}"
proof -
  have "set_mset (mset done) = set_mset (mset (map (\<lambda>i. (i, batch_work svc (gather_work_items fs directories) i))
                              (batch_tasks (gather_work_items fs directories))))"
    using batch_run_mset [OF assms] by simp
  then show ?thesis by (auto simp: batch_tasks_def)
qed

lemma report_future_write: "WriteFile q c \<in> set (report_future r) \<Longrightarrow> WriteFile q c \<in> set (fst r)"
  by (cases r; cases "snd r") auto

subsection \<open>Properties\<close>

text \<open>Claim C3: in every state a batch can reach, at most eight tasks are running.\<close>

theorem batch_run_bound:
  "pool_reachable max_workers (batch_work svc st) (batch_tasks st) s \<Longrightarrow> length (running s) \<le> 8"
  using pool_reachable_inv by (fastforce simp: pool_inv_def max_workers_def)

text \<open>Claim C1: when a batch returns, every discovered item has exactly one recorded
  outcome, and it is the outcome of \<open>process_single_file\<close> on that item alone.\<close>

theorem batch_run_one_outcome_per_item:
  assumes "batch_run svc fs directories done"
  shows "mset (map fst done) = mset [0..<length (items (gather_work_items fs directories))] \<and>
         (\<forall>(i, r) \<in> set done. r = process_single_file svc (heap (gather_work_items fs directories))
                                     (items (gather_work_items fs directories) ! i))"
proof -
  let ?st = "gather_work_items fs directories"
  have m: "mset done = mset (map (\<lambda>i. (i, batch_work svc ?st i)) (batch_tasks ?st))"
    using assms by (rule batch_run_mset)
  then have "mset (map fst done) = mset (batch_tasks ?st)"
    by (metis (no_types, lifting) map_eq_conv map_map mset_map fst_conv comp_apply map_idI)
  moreover have "set done = set (map (\<lambda>i. (i, batch_work svc ?st i)) (batch_tasks ?st))"
    using m by (metis set_mset_mset)
  then have "\<forall>(i, r) \<in> set done. r = batch_work svc ?st i" by auto
  ultimately show ?thesis by (simp add: batch_tasks_def batch_work_def)
qed

text \<open>Claim C2: failure isolation: an item whose own calls succeed has its transcript
  written in every complete run, whatever happens to the other items of the batch.\<close>

theorem batch_run_isolation:
  assumes "batch_run svc fs directories done"
    and "st = gather_work_items fs directories" "i < length (items st)"
    and "language (heap st ! config (items st ! i)) = Some lang"
    and "submit_job svc (video_path (items st ! i)) (heap st ! config (items st ! i)) = Inr job_id"
    and "wait_for_completion svc job_id ''srt'' = Inr transcript"
    and "open_write svc (transcript_path (video_path (items st ! i))) = None"
  shows "WriteFile (transcript_path (video_path (items st ! i))) transcript \<in> set (batch_log done)"
proof -
  have "(i, batch_work svc st i) \<in> set done" using assms(1-3) batch_run_in_done by blast
  moreover have "WriteFile (transcript_path (video_path (items st ! i))) transcript \<in>
                   set (report_future (batch_work svc st i))"
    using assms(4-7) by (simp add: batch_work_def process_single_file_success)
  ultimately show ?thesis unfolding set_batch_log by force
qed

text \<open>Claim C4: an exception that escapes a worker does not stop the batch; the
  \<open>as_completed\<close> loop reports it.\<close>

theorem batch_run_reports_escape:
  assumes "batch_run svc fs directories done"
    and "st = gather_work_items fs directories" "i < length (items st)"
    and "snd (batch_work svc st i) = Some e"
  shows "Print (''Error occurred in thread: '' @ exc_str e) \<in> set (batch_log done)"
proof -
  have "(i, batch_work svc st i) \<in> set done" using assms(1-3) batch_run_in_done by blast
  moreover have "Print (''Error occurred in thread: '' @ exc_str e) \<in> set (report_future (batch_work svc st i))"
    using assms(4) by (cases "batch_work svc st i") simp
  ultimately show ?thesis unfolding set_batch_log by force
qed

text \<open>Claim C6: a batch never overwrites a video: every file a batch writes is the transcript
  path of one of its discovered items, and no such path is the path of a discovered video.\<close>

theorem batch_never_overwrites_video:
  assumes "batch_run svc fs directories done"
    and "WriteFile q c \<in> set (batch_log done)"
  shows "(\<exists>i < length (items (gather_work_items fs directories)).
            q = transcript_path (video_path (items (gather_work_items fs directories) ! i))) \<and>
         q \<notin> video_path ` set (items (gather_work_items fs directories))"
proof -
  let ?st = "gather_work_items fs directories"
  obtain i r where ir: "(i, r) \<in> set done" "WriteFile q c \<in> set (report_future r)"
    using assms(2) unfolding set_batch_log by auto
  then have i: "i < length (items ?st)" and r: "r = process_single_file svc (heap ?st) (items ?st ! i)"
    using batch_run_done_set [OF assms(1)] by (auto simp: batch_work_def)
  have q: "q = transcript_path (video_path (items ?st ! i))"
    using report_future_write [OF ir(2)] r process_single_file_write_path by blast
  have "q \<notin> video_path ` set (items ?st)"
  proof
    assume "q \<in> video_path ` set (items ?st)"
    then have "str_endswith q ''.mp4''" using gather_items_mp4 by blast
    moreover have "str_endswith q ''.txt''" using q transcript_path_txt by simp
    ultimately show False by (auto simp: str_endswith_def)
  qed
  with i q show ?thesis by blast
qed

text \<open>Claim C18: in a batch, the exceptions that escape a worker and reach the main thread's
  \<open>Error occurred in thread\<close> line are exactly the decoding errors of an HTTP 400 body
  answered to that item's own submission, wait or open: discovery gives every item a
  language, so the \<open>KeyError\<close> branch of line 103 is dead.\<close>

theorem batch_thread_errors:
  assumes "st = gather_work_items fs directories" "i < length (items st)"
    and "snd (batch_work svc st i) = Some e"
  shows "\<exists>body msg. response_detail body = Inl e \<and>
           (submit_job svc (video_path (items st ! i)) (heap st ! config (items st ! i)) = Inl (HTTPStatusError 400 body msg) \<or>
            (\<exists>job_id. submit_job svc (video_path (items st ! i)) (heap st ! config (items st ! i)) = Inr job_id \<and>
               (wait_for_completion svc job_id ''srt'' = Inl (HTTPStatusError 400 body msg) \<or>
                (\<exists>t. wait_for_completion svc job_id ''srt'' = Inr t \<and>
                     open_write svc (transcript_path (video_path (items st ! i))) = Some (HTTPStatusError 400 body msg)))))"
proof -
  obtain lang where "language (heap st ! config (items st ! i)) = Some lang"
    using gather_items_language assms(1,2) by blast
  then show ?thesis using process_single_file_raises_400 assms(3) by (simp add: batch_work_def)
qed

text \<open>Claim C10: the batch's futures start in the order the discovery loop listed their
  items: in every state the executor reaches, the queued futures are those of items
  \<open>k, k+1, ...\<close> and the started ones (running or completed) are exactly items
  \<open>0, ..., k-1\<close>, for some \<open>k\<close>.\<close>

theorem batch_fifo:
  assumes "st = gather_work_items fs directories"
    and "pool_reachable max_workers (batch_work svc st) (batch_tasks st) s"
  shows "\<exists>k \<le> length (items st). pending s = [k..<length (items st)] \<and>
           mset (running s) + mset (map fst (completed s)) = mset [0..<k]"
proof -
  obtain k where k: "pending s = drop k (batch_tasks st)"
    and m: "mset (running s) + mset (map fst (completed s)) = mset (take k (batch_tasks st))"
    using pool_fifo [OF assms(2)] by blast
  let ?n = "length (items st)"
  have "[k..<?n] = [min k ?n..<?n]" by (cases "k \<le> ?n") (simp_all add: min_def)
  then have "pending s = [min k ?n..<?n]" using k by (simp add: batch_tasks_def)
  moreover have "mset (running s) + mset (map fst (completed s)) = mset [0..<min k ?n]"
  proof -
    have "take k (batch_tasks st) = [0..<min k ?n]"
      by (cases "k \<le> ?n") (simp_all add: batch_tasks_def take_upt min_def)
    then show ?thesis using m by (simp only:)
  qed
  ultimately show ?thesis by (intro exI [of _ "min k ?n"]) simp
qed

end
