(* ===== verification/Interleave.thy ===== *)
theory Interleave
  imports Batch
begin

text \<open>
  The executor of lines 136--145 at the granularity of single effects. In the atomic model
  of \<open>Batch\<close> a task's printed lines appear together when it finishes; here each worker
  thread performs its effects one at a time, so that the lines of concurrent tasks and the
  main thread's \<open>as_completed\<close> reports interleave in the process's output. The output is
  a trace of effects tagged with the thread that performed them. \<open>as_completed\<close> may
  yield any finished future: CPython yields the futures already finished when it is called
  in set order, and the later ones in completion order.
\<close>

subsection \<open>Definitions\<close>

datatype src = Thread nat | MainThread

text \<open>The lines the main thread prints for a future it receives (lines 142--145): nothing
  when \<open>future.result()\<close> returns, the \<open>Error occurred in thread\<close> line when it
  re-raises the task's exception.\<close>

definition main_report :: "effect list \<times> exc option \<Rightarrow> effect list" where
  "main_report r = (case snd r of None \<Rightarrow> [] | Some e \<Rightarrow> [Print (''Error occurred in thread: '' @ exc_str e)])"

text \<open>The executor's state: the queued futures, the running worker threads with the
  effects each still has to perform, the futures in the order they finished, the finished
  futures \<open>as_completed\<close> has not yet yielded, those it has, and the output trace.\<close>

record ipool =
  queue :: "nat list"
  active :: "(nat \<times> effect list) list"
  finished :: "nat list"
  unyielded :: "nat list"
  yielded :: "nat list"
  trace :: "(src \<times> effect) list"

definition ipool_init :: "nat list \<Rightarrow> ipool" where
  "ipool_init ts = \<lparr>queue = ts, active = [], finished = [], unyielded = [], yielded = [], trace = []\<rparr>"

text \<open>A worker thread takes the next queued future when fewer than \<open>max_workers\<close>
  threads are busy; a busy thread performs its next effect; a thread with nothing left
  finishes its future; the main thread receives a finished future from \<open>as_completed\<close>
  and prints its report.\<close>

inductive istep :: "nat \<Rightarrow> (nat \<Rightarrow> effect list \<times> exc option) \<Rightarrow> ipool \<Rightarrow> ipool \<Rightarrow> bool"
  for m :: nat and work :: "nat \<Rightarrow> effect list \<times> exc option" where
  start: "queue s = t # ts \<Longrightarrow> length (active s) < m \<Longrightarrow>
          istep m work s (s\<lparr>queue := ts, active := active s @ [(t, fst (work t))]\<rparr>)"
| emit: "j < length (active s) \<Longrightarrow> active s ! j = (t, e # es) \<Longrightarrow>
          istep m work s
            (s\<lparr>active := (active s)[j := (t, es)], trace := trace s @ [(Thread t, e)]\<rparr>)"
| finish: "(t, []) \<in> set (active s) \<Longrightarrow>
          istep m work s
            (s\<lparr>active := remove1 (t, []) (active s), finished := finished s @ [t],
               unyielded := unyielded s @ [t]\<rparr>)"
| yield: "t \<in> set (unyielded s) \<Longrightarrow>
          istep m work s
            (s\<lparr>unyielded := remove1 t (unyielded s), yielded := yielded s @ [t],
               trace := trace s @ map (\<lambda>e. (MainThread, e)) (main_report (work t))\<rparr>)"

definition ireachable :: "nat \<Rightarrow> (nat \<Rightarrow> effect list \<times> exc option) \<Rightarrow> nat list \<Rightarrow> ipool \<Rightarrow> bool" where
  "ireachable m work ts s \<longleftrightarrow> (istep m work)\<^sup>*\<^sup>* (ipool_init ts) s"

text \<open>The \<open>as_completed\<close> loop has ended and the \<open>with\<close> block can exit.\<close>

definition ipool_final :: "ipool \<Rightarrow> bool" where
  "ipool_final s \<longleftrightarrow> queue s = [] \<and> active s = [] \<and> unyielded s = []"

text \<open>The effects one source performed, in order.\<close>

definition proj :: "src \<Rightarrow> (src \<times> effect) list \<Rightarrow> effect list" where
  "proj x tr = map snd (filter (\<lambda>(y, _). y = x) tr)"

text \<open>Where every future is, and what the trace holds so far.\<close>

definition iinv_tasks :: "nat \<Rightarrow> nat list \<Rightarrow> ipool \<Rightarrow> bool" where
  "iinv_tasks m ts s \<longleftrightarrow>
     mset (queue s) + mset (map fst (active s)) + mset (finished s) = mset ts \<and>
     (\<exists>k. queue s = drop k ts) \<and> length (active s) \<le> m \<and>
     mset (unyielded s) + mset (yielded s) = mset (finished s)"

definition iinv_trace :: "(nat \<Rightarrow> effect list \<times> exc option) \<Rightarrow> nat list \<Rightarrow> ipool \<Rightarrow> bool" where
  "iinv_trace work ts s \<longleftrightarrow>
     (\<forall>t \<in> set (queue s). proj (Thread t) (trace s) = []) \<and>
     (\<forall>(t, es) \<in> set (active s). proj (Thread t) (trace s) @ es = fst (work t)) \<and>
     (\<forall>t \<in> set (finished s). proj (Thread t) (trace s) = fst (work t)) \<and>
     proj MainThread (trace s) = concat (map (main_report \<circ> work) (yielded s)) \<and>
     (\<forall>(x, e) \<in> set (trace s). x = MainThread \<or> (\<exists>t \<in> set ts. x = Thread t)) \<and>
     (\<forall>t \<in> set (yielded s). \<exists>pre post.
        trace s = pre @ map (\<lambda>e. (MainThread, e)) (main_report (work t)) @ post \<and>
        proj (Thread t) pre = fst (work t))"

text \<open>A complete run of one batch at this granularity.\<close>

inductive ibatch_run :: "service \<Rightarrow> fsnode \<Rightarrow> path list \<Rightarrow> ipool \<Rightarrow> bool" where
  "st = gather_work_items fs directories \<Longrightarrow>
   ireachable max_workers (batch_work svc st) (batch_tasks st) s \<Longrightarrow> ipool_final s \<Longrightarrow>
   ibatch_run svc fs directories s"

subsection \<open>Lemmas\<close>

lemma proj_append [simp]: "proj x (xs @ ys) = proj x xs @ proj x ys"
  by (simp add: proj_def)

lemma proj_single [simp]: "proj x [(y, e)] = (if y = x then [e] else [])"
  by (simp add: proj_def)

lemma proj_main_map [simp]:
  "proj x (map (\<lambda>e. (MainThread, e)) es) = (if x = MainThread then es else [])"
  by (induction es) (auto simp: proj_def)

lemma iinv_tasks_distinct:
  assumes "iinv_tasks m ts s" "distinct ts"
  shows "distinct (queue s @ map fst (active s) @ finished s)"
proof -
  have "mset (queue s @ map fst (active s) @ finished s) = mset ts"
    using assms(1) by (simp add: iinv_tasks_def add.assoc)
  with assms(2) show ?thesis using mset_eq_imp_distinct_iff by blast
qed

lemma nth_split_update:
  assumes "j < length xs"
  shows "\<exists>a b. xs = a @ xs ! j # b \<and> xs[j := y] = a @ y # b \<and> length a = j"
proof (intro exI conjI)
  show "xs = take j xs @ xs ! j # drop (Suc j) xs" by (rule id_take_nth_drop [OF assms])
  show "xs[j := y] = take j xs @ y # drop (Suc j) xs" by (rule upd_conv_take_nth_drop [OF assms])
  show "length (take j xs) = j" using assms by simp
qed

lemma iinv_tasks_start:
  assumes "iinv_tasks m ts s" "queue s = t # q" "length (active s) < m"
  shows "iinv_tasks m ts (s\<lparr>queue := q, active := active s @ [(t, x)]\<rparr>)"
proof -
  obtain k where k: "queue s = drop k ts" using assms(1) by (auto simp: iinv_tasks_def)
  then have "q = drop (Suc k) ts" using assms(2) by (metis drop_Suc list.sel(3) tl_drop)
  moreover have "mset q + mset (map fst (active s @ [(t, x)])) + mset (finished s) = mset ts"
    using assms(1,2) by (simp add: iinv_tasks_def)
  ultimately show ?thesis using assms(1,3) by (auto simp: iinv_tasks_def)
qed

lemma iinv_tasks_emit:
  assumes "iinv_tasks m ts s" "j < length (active s)" "active s ! j = (t, e # es)"
  shows "iinv_tasks m ts (s\<lparr>active := (active s)[j := (t, es)], trace := tr\<rparr>)"
proof -
  have "map fst ((active s)[j := (t, es)]) = map fst (active s)"
    using assms(2,3) by (metis fst_conv list_update_id map_update nth_map)
  with assms(1) show ?thesis by (simp add: iinv_tasks_def)
qed

lemma iinv_tasks_finish:
  assumes "iinv_tasks m ts s" "(t, []) \<in> set (active s)"
  shows "iinv_tasks m ts (s\<lparr>active := remove1 (t, []) (active s), finished := finished s @ [t],
               unyielded := unyielded s @ [t]\<rparr>)"
proof -
  obtain a b where ab: "active s = a @ (t, []) # b" "(t, []) \<notin> set a" using assms(2) by (meson split_list_first)
  then have r: "remove1 (t, []) (active s) = a @ b" by (simp add: remove1_append)
  have "mset (queue s) + mset (map fst (a @ b)) + mset (finished s @ [t]) = mset ts"
    using assms(1) ab(1) by (simp add: iinv_tasks_def)
  moreover have "mset (unyielded s @ [t]) + mset (yielded s) = mset (finished s @ [t])"
    using assms(1) by (simp add: iinv_tasks_def)
  moreover have "length (a @ b) \<le> m" using assms(1) ab(1) by (simp add: iinv_tasks_def)
  ultimately show ?thesis using assms(1) r by (simp add: iinv_tasks_def)
qed

lemma iinv_tasks_yield:
  assumes "iinv_tasks m ts s" "t \<in> set (unyielded s)"
  shows "iinv_tasks m ts (s\<lparr>unyielded := remove1 t (unyielded s), yielded := yielded s @ [t], trace := tr\<rparr>)"
proof -
  have "mset (remove1 t (unyielded s)) + mset (yielded s @ [t]) = mset (unyielded s) + mset (yielded s)"
    using assms(2) by (simp add: mset_remove1)
  with assms(1) show ?thesis by (simp add: iinv_tasks_def)
qed

lemma istep_tasks:
  assumes "istep m w s s'" "iinv_tasks m ts s"
  shows "iinv_tasks m ts s'"
  using assms(1)
proof cases
  case (start t q)
  then show ?thesis using assms(2) by (simp add: iinv_tasks_start)
next
  case (emit j t e es)
  then show ?thesis using assms(2) by (simp add: iinv_tasks_emit)
next
  case (finish t)
  then show ?thesis using assms(2) by (simp add: iinv_tasks_finish)
next
  case (yield t)
  then show ?thesis using assms(2) by (simp add: iinv_tasks_yield)
qed

lemma ball_snoc: "\<forall>x \<in> set xs. P x \<Longrightarrow> P y \<Longrightarrow> \<forall>x \<in> set (xs @ [y]). P x"
  by simp

lemma yielded_after_append:
  "\<forall>t \<in> Y. \<exists>pre post. tr = pre @ f t @ post \<and> P t pre \<Longrightarrow>
   \<forall>t \<in> Y. \<exists>pre post. tr @ x = pre @ f t @ post \<and> P t pre"
  by (metis append.assoc)

lemma iinv_facts:
  assumes "iinv_tasks m ts s" "distinct ts"
  shows "distinct (queue s @ map fst (active s) @ finished s)"
    and "set (map fst (active s)) \<subseteq> set ts"
proof -
  show "distinct (queue s @ map fst (active s) @ finished s)" using assms by (rule iinv_tasks_distinct)
  have "set_mset (mset (queue s) + mset (map fst (active s)) + mset (finished s)) = set ts"
    using assms(1) by (simp add: iinv_tasks_def)
  then show "set (map fst (active s)) \<subseteq> set ts" by auto
qed

lemma iinv_unyielded_finished:
  assumes "iinv_tasks m ts s"
  shows "set (unyielded s) \<subseteq> set (finished s)" and "set (yielded s) \<subseteq> set (finished s)"
proof -
  have "set_mset (mset (unyielded s) + mset (yielded s)) = set (finished s)"
    using assms(1) unfolding iinv_tasks_def by (metis set_mset_mset)
  then show "set (unyielded s) \<subseteq> set (finished s)" and "set (yielded s) \<subseteq> set (finished s)" by auto
qed

lemma iinv_trace_start:
  assumes "iinv_trace w ts s" "queue s = t # q"
  shows "iinv_trace w ts (s\<lparr>queue := q, active := active s @ [(t, fst (w t))]\<rparr>)"
  using assms by (simp add: iinv_trace_def)

lemma iinv_trace_emit:
  assumes "iinv_trace w ts s" "iinv_tasks m ts s" "distinct ts"
    and "j < length (active s)" "active s ! j = (t, e # es)"
  shows "iinv_trace w ts (s\<lparr>active := (active s)[j := (t, es)], trace := trace s @ [(Thread t, e)]\<rparr>)"
proof -
  obtain a b where ab: "active s = a @ (t, e # es) # b" "(active s)[j := (t, es)] = a @ (t, es) # b"
    using nth_split_update [OF assms(4), of "(t, es)"] assms(5) by auto
  have d: "distinct (queue s @ map fst (active s) @ finished s)" using assms(2,3) by (rule iinv_facts)
  then have tq: "t \<notin> set (queue s)" and tf: "t \<notin> set (finished s)"
    and ta: "t \<notin> fst ` set a" and tb: "t \<notin> fst ` set b"
    using ab(1) by auto
  have tts: "t \<in> set ts" using iinv_facts(2) [OF assms(2,3)] ab(1) by auto
  have other: "proj (Thread t') (trace s @ [(Thread t, e)]) = proj (Thread t') (trace s)" if "t' \<noteq> t" for t'
    using that by simp
  have "\<forall>t' \<in> set (queue s). proj (Thread t') (trace s @ [(Thread t, e)]) = []"
    using assms(1) tq other unfolding iinv_trace_def by metis
  moreover have "\<forall>(t', es') \<in> set (a @ (t, es) # b). proj (Thread t') (trace s @ [(Thread t, e)]) @ es' = fst (w t')"
  proof -
    have old: "\<forall>(t', es') \<in> set (active s). proj (Thread t') (trace s) @ es' = fst (w t')"
      using assms(1) by (simp add: iinv_trace_def)
    have "proj (Thread t) (trace s @ [(Thread t, e)]) @ es = fst (w t)"
      using old ab(1) by auto
    moreover have "\<forall>(t', es') \<in> set a \<union> set b. proj (Thread t') (trace s @ [(Thread t, e)]) @ es' = fst (w t')"
      using old ab(1) ta tb other by (fastforce simp: image_iff)
    ultimately show ?thesis by auto
  qed
  moreover have "\<forall>t' \<in> set (finished s). proj (Thread t') (trace s @ [(Thread t, e)]) = fst (w t')"
    using assms(1) tf other unfolding iinv_trace_def by metis
  moreover have "\<forall>(x, e') \<in> set (trace s @ [(Thread t, e)]). x = MainThread \<or> (\<exists>t' \<in> set ts. x = Thread t')"
    using assms(1) tts unfolding iinv_trace_def by auto
  moreover have "\<forall>t' \<in> set (yielded s). \<exists>pre post.
        trace s @ [(Thread t, e)] = pre @ map (\<lambda>e. (MainThread, e)) (main_report (w t')) @ post \<and>
        proj (Thread t') pre = fst (w t')"
    using assms(1) unfolding iinv_trace_def by (intro yielded_after_append) simp
  ultimately show ?thesis using assms(1) ab(2) by (simp add: iinv_trace_def)
qed

lemma iinv_trace_finish:
  assumes "iinv_trace w ts s" "(t, []) \<in> set (active s)"
  shows "iinv_trace w ts (s\<lparr>active := remove1 (t, []) (active s), finished := finished s @ [t],
               unyielded := unyielded s @ [t]\<rparr>)"
proof -
  have A: "\<forall>(t', es') \<in> set (active s). proj (Thread t') (trace s) @ es' = fst (w t')"
    and F: "\<forall>t' \<in> set (finished s). proj (Thread t') (trace s) = fst (w t')"
    using assms(1) unfolding iinv_trace_def by blast+
  have "proj (Thread t) (trace s) = fst (w t)" using A assms(2) by fastforce
  with F have F': "\<forall>t' \<in> set (finished s @ [t]). proj (Thread t') (trace s) = fst (w t')" by simp
  have A': "\<forall>(t', es') \<in> set (remove1 (t, []) (active s)). proj (Thread t') (trace s) @ es' = fst (w t')"
    using A set_remove1_subset [of "(t, [])" "active s"] by blast
  show ?thesis using assms(1) A' F' unfolding iinv_trace_def by simp
qed

lemma iinv_trace_yield:
  assumes "iinv_trace w ts s" "iinv_tasks m ts s" "t \<in> set (unyielded s)"
  shows "iinv_trace w ts (s\<lparr>unyielded := remove1 t (unyielded s), yielded := yielded s @ [t],
               trace := trace s @ map (\<lambda>e. (MainThread, e)) (main_report (w t))\<rparr>)"
proof -
  let ?r = "map (\<lambda>e. (MainThread, e)) (main_report (w t))"
  have Q: "\<forall>t \<in> set (queue s). proj (Thread t) (trace s) = []"
    and A: "\<forall>(t, es) \<in> set (active s). proj (Thread t) (trace s) @ es = fst (w t)"
    and F: "\<forall>t \<in> set (finished s). proj (Thread t) (trace s) = fst (w t)"
    and M: "proj MainThread (trace s) = concat (map (main_report \<circ> w) (yielded s))"
    and S: "\<forall>(x, e) \<in> set (trace s). x = MainThread \<or> (\<exists>t \<in> set ts. x = Thread t)"
    and Y: "\<forall>t \<in> set (yielded s). \<exists>pre post.
        trace s = pre @ map (\<lambda>e. (MainThread, e)) (main_report (w t)) @ post \<and>
        proj (Thread t) pre = fst (w t)"
    using assms(1) unfolding iinv_trace_def by blast+
  have tf: "proj (Thread t) (trace s) = fst (w t)"
    using F iinv_unyielded_finished(1) [OF assms(2)] assms(3) by blast
  have Y': "\<forall>t' \<in> set (yielded s @ [t]). \<exists>pre post.
        trace s @ ?r = pre @ map (\<lambda>e. (MainThread, e)) (main_report (w t')) @ post \<and>
        proj (Thread t') pre = fst (w t')"
  proof -
    have "\<forall>t' \<in> set (yielded s). \<exists>pre post.
        trace s @ ?r = pre @ map (\<lambda>e. (MainThread, e)) (main_report (w t')) @ post \<and>
        proj (Thread t') pre = fst (w t')"
      using Y by (rule yielded_after_append [where tr = "trace s" and x = ?r])
    moreover have "\<exists>pre post. trace s @ ?r = pre @ ?r @ post \<and> proj (Thread t) pre = fst (w t)"
      using tf by (intro exI [of _ "trace s"] exI [of _ "[]"]) simp
    ultimately show ?thesis by (rule ball_snoc)
  qed
  have S': "\<forall>(x, e) \<in> set (trace s @ ?r). x = MainThread \<or> (\<exists>t' \<in> set ts. x = Thread t')"
    using S by auto
  have M': "proj MainThread (trace s @ ?r) = concat (map (main_report \<circ> w) (yielded s @ [t]))"
    using M by simp
  show ?thesis using Q A F M' S' Y' unfolding iinv_trace_def by simp
qed

lemma istep_trace:
  assumes "istep m w s s'" "iinv_trace w ts s" "iinv_tasks m ts s" "distinct ts"
  shows "iinv_trace w ts s'"
  using assms(1)
proof cases
  case (start t q)
  then show ?thesis using assms(2) by (simp add: iinv_trace_start)
next
  case (emit j t e es)
  then show ?thesis using assms(2-4) by (simp add: iinv_trace_emit)
next
  case (finish t)
  then show ?thesis using assms(2) by (simp add: iinv_trace_finish)
next
  case (yield t)
  then show ?thesis using assms(2,3) by (simp add: iinv_trace_yield)
qed

lemma iinv_init: "iinv_tasks m ts (ipool_init ts)" "iinv_trace w ts (ipool_init ts)"
  by (auto simp: iinv_tasks_def iinv_trace_def ipool_init_def proj_def intro: exI [of _ 0])

lemma ireachable_inv:
  assumes "ireachable m w ts s" "distinct ts"
  shows "iinv_tasks m ts s \<and> iinv_trace w ts s"
  using assms(1) unfolding ireachable_def
proof (induction rule: rtranclp_induct)
  case base
  then show ?case using iinv_init by blast
next
  case (step s s')
  then show ?case using istep_tasks istep_trace assms(2) by blast
qed

lemma ifinal_mset:
  assumes "iinv_tasks m ts s" "ipool_final s"
  shows "mset (finished s) = mset ts" "mset (yielded s) = mset ts"
  using assms by (simp_all add: iinv_tasks_def ipool_final_def)

lemma sum_list_map_mset_eq:
  fixes f :: "'a \<Rightarrow> 'b::comm_monoid_add"
  assumes "mset xs = mset ys"
  shows "sum_list (map f xs) = sum_list (map f ys)"
proof -
  have "sum_list (map f xs) = sum_mset (image_mset f (mset xs))" by (simp only: mset_map [symmetric] sum_mset_sum_list)
  also have "\<dots> = sum_mset (image_mset f (mset ys))" using assms by simp
  also have "\<dots> = sum_list (map f ys)" by (simp only: mset_map [symmetric] sum_mset_sum_list)
  finally show ?thesis .
qed

lemma sum_list_no_source:
  "y \<notin> set xs \<Longrightarrow> sum_list (map (\<lambda>x. if y = x then {#e#} else {#}) xs) = {#}"
  by (induction xs) auto

lemma sum_list_single_source:
  assumes "distinct xs" "y \<in> set xs"
  shows "sum_list (map (\<lambda>x. if y = x then {#e#} else {#}) xs) = {#e#}"
  using assms by (induction xs) (auto simp: sum_list_no_source)

lemma mset_proj_Cons:
  "mset (proj x ((y, e) # tr)) = (if y = x then {#e#} else {#}) + mset (proj x tr)"
  by (simp add: proj_def)

lemma mset_trace_proj:
  assumes "distinct xs" "\<forall>(x, e) \<in> set tr. x \<in> set xs"
  shows "mset (map snd tr) = sum_list (map (\<lambda>x. mset (proj x tr)) xs)"
  using assms(2)
proof (induction tr)
  case Nil
  then show ?case by (simp add: proj_def)
next
  case (Cons ye tr)
  obtain y e where ye: "ye = (y, e)" by (cases ye)
  have "y \<in> set xs" using Cons.prems ye by auto
  then have "sum_list (map (\<lambda>x. mset (proj x ((y, e) # tr))) xs) =
             sum_list (map (\<lambda>x. if y = x then {#e#} else {#}) xs) + sum_list (map (\<lambda>x. mset (proj x tr)) xs)"
    by (simp only: mset_proj_Cons sum_list_addf)
  also have "\<dots> = {#e#} + mset (map snd tr)"
    using Cons sum_list_single_source [OF assms(1) \<open>y \<in> set xs\<close>] by simp
  finally show ?case using ye by simp
qed

lemma ifinal_projections:
  assumes "ireachable m w ts s" "distinct ts" "ipool_final s"
  shows "\<forall>t \<in> set ts. proj (Thread t) (trace s) = fst (w t)"
    and "mset (map snd (trace s)) = sum_list (map (\<lambda>t. mset (fst (w t) @ main_report (w t))) ts)"
proof -
  have tasks: "iinv_tasks m ts s" and tr: "iinv_trace w ts s" using ireachable_inv [OF assms(1,2)] by auto
  have fin: "mset (finished s) = mset ts" and yl: "mset (yielded s) = mset ts"
    using ifinal_mset [OF tasks assms(3)] by auto
  then have "set (finished s) = set ts" by (metis set_mset_mset)
  then show "\<forall>t \<in> set ts. proj (Thread t) (trace s) = fst (w t)"
    using tr unfolding iinv_trace_def by auto
  then have thr: "sum_list (map (\<lambda>t. mset (proj (Thread t) (trace s))) ts) = sum_list (map (\<lambda>t. mset (fst (w t))) ts)"
    by (metis (mono_tags, lifting) map_eq_conv)
  have main: "mset (proj MainThread (trace s)) = sum_list (map (\<lambda>t. mset (main_report (w t))) ts)"
  proof -
    have "mset (proj MainThread (trace s)) = sum_list (map (\<lambda>t. mset (main_report (w t))) (yielded s))"
      using tr unfolding iinv_trace_def by (simp add: mset_concat comp_def)
    then show ?thesis using sum_list_map_mset_eq [OF yl] by simp
  qed
  have d: "distinct (MainThread # map Thread ts)" using assms(2) by (auto simp: distinct_map inj_on_def)
  have src: "\<forall>(x, e) \<in> set (trace s). x \<in> set (MainThread # map Thread ts)"
    using tr unfolding iinv_trace_def by auto
  have "mset (map snd (trace s)) = mset (proj MainThread (trace s)) + sum_list (map (\<lambda>t. mset (proj (Thread t) (trace s))) ts)"
    using mset_trace_proj [OF d src] by (simp add: comp_def)
  also have "\<dots> = sum_list (map (\<lambda>t. mset (fst (w t) @ main_report (w t))) ts)"
    using main thr by (simp add: sum_list_addf add.commute)
  finally show "mset (map snd (trace s)) = sum_list (map (\<lambda>t. mset (fst (w t) @ main_report (w t))) ts)" .
qed

lemma distinct_batch_tasks: "distinct (batch_tasks st)"
  by (simp add: batch_tasks_def)

text \<open>A run of a single task that performs its effects and is received by the main thread.\<close>

lemma istep_emit_all:
  "(istep m w)\<^sup>*\<^sup>* \<lparr>queue = q, active = [(t, es)], finished = f, unyielded = u, yielded = y, trace = tr\<rparr>
     \<lparr>queue = q, active = [(t, [])], finished = f, unyielded = u, yielded = y,
        trace = tr @ map (\<lambda>e. (Thread t, e)) es\<rparr>"
proof (induction es arbitrary: tr)
  case (Cons e es)
  have "istep m w \<lparr>queue = q, active = [(t, e # es)], finished = f, unyielded = u, yielded = y, trace = tr\<rparr>
     \<lparr>queue = q, active = [(t, es)], finished = f, unyielded = u, yielded = y, trace = tr @ [(Thread t, e)]\<rparr>"
    using istep.emit [of 0 "\<lparr>queue = q, active = [(t, e # es)], finished = f, unyielded = u, yielded = y, trace = tr\<rparr>" t e es m w]
    by simp
  with Cons [of "tr @ [(Thread t, e)]"] show ?case by (simp add: converse_rtranclp_into_rtranclp)
qed simp

lemma ireachable_single:
  assumes "0 < m"
  shows "ireachable m w [t] \<lparr>queue = [], active = [], finished = [t], unyielded = [], yielded = [t],
            trace = map (\<lambda>e. (Thread t, e)) (fst (w t)) @ map (\<lambda>e. (MainThread, e)) (main_report (w t))\<rparr>"
proof -
  let ?s1 = "\<lparr>queue = [], active = [(t, fst (w t))], finished = [], unyielded = [], yielded = [], trace = []\<rparr>"
  let ?s2 = "\<lparr>queue = [], active = [(t, [])], finished = [], unyielded = [], yielded = [],
              trace = map (\<lambda>e. (Thread t, e)) (fst (w t))\<rparr>"
  let ?s3 = "\<lparr>queue = [], active = [], finished = [t], unyielded = [t], yielded = [],
              trace = map (\<lambda>e. (Thread t, e)) (fst (w t))\<rparr>"
  have 1: "istep m w (ipool_init [t]) ?s1"
    using istep.start [of "ipool_init [t]" t "[]" m w] assms by (simp add: ipool_init_def)
  have 2: "(istep m w)\<^sup>*\<^sup>* ?s1 ?s2" using istep_emit_all [of m w "[]" t "fst (w t)" "[]" "[]" "[]" "[]"] by simp
  have 3: "istep m w ?s2 ?s3" using istep.finish [of t ?s2 m w] by simp
  have 4: "istep m w ?s3 \<lparr>queue = [], active = [], finished = [t], unyielded = [], yielded = [t],
            trace = map (\<lambda>e. (Thread t, e)) (fst (w t)) @ map (\<lambda>e. (MainThread, e)) (main_report (w t))\<rparr>"
    using istep.yield [of t ?s3 m w] by simp
  show ?thesis unfolding ireachable_def using 1 2 3 4
    by (meson converse_rtranclp_into_rtranclp rtranclp.rtrancl_into_rtrancl)
qed

subsection \<open>Properties\<close>

text \<open>Claim C11: however the worker threads and the main thread interleave, the lines and
  files one item's thread produces appear in the output in the order \<open>process_single_file\<close>
  performs them, and are exactly that item's effects.\<close>

theorem ibatch_item_lines:
  assumes "ibatch_run svc fs directories s"
    and "i < length (items (gather_work_items fs directories))"
  shows "proj (Thread i) (trace s) =
           fst (process_single_file svc (heap (gather_work_items fs directories))
                  (items (gather_work_items fs directories) ! i))"
  using assms(1)
proof cases
  case 1
  then show ?thesis
    using ifinal_projections(1) [OF _ distinct_batch_tasks] assms(2)
    by (fastforce simp: batch_tasks_def batch_work_def)
qed

text \<open>Claim C12: the main thread reports a worker's escaped exception only after everything
  that worker printed: the \<open>Error occurred in thread\<close> line of an item follows all of its
  own lines in the output.\<close>

theorem ibatch_error_after:
  assumes "ibatch_run svc fs directories s"
    and "st = gather_work_items fs directories" "i < length (items st)"
    and "snd (batch_work svc st i) = Some e"
  shows "\<exists>pre post. trace s = pre @ (MainThread, Print (''Error occurred in thread: '' @ exc_str e)) # post \<and>
                    proj (Thread i) pre = fst (batch_work svc st i)"
  using assms(1)
proof cases
  case (1 st')
  let ?w = "batch_work svc st" and ?ts = "batch_tasks st"
  have reach: "ireachable max_workers ?w ?ts s" using 1 assms(2) by simp
  have tasks: "iinv_tasks max_workers ?ts s" and tr: "iinv_trace ?w ?ts s"
    using ireachable_inv [OF reach distinct_batch_tasks] by auto
  have "mset (yielded s) = mset ?ts" using ifinal_mset(2) [OF tasks 1(3)] .
  then have "i \<in> set (yielded s)" using assms(3) by (metis atLeastLessThan_iff batch_tasks_def set_mset_mset set_upt zero_le)
  then obtain pre post where "trace s = pre @ map (\<lambda>e. (MainThread, e)) (main_report (?w i)) @ post"
      and "proj (Thread i) pre = fst (?w i)"
    using tr unfolding iinv_trace_def by blast
  then show ?thesis using assms(4) by (auto simp: main_report_def)
qed

end
