(* ===== verification/Scenarios.thy ===== *)
theory Scenarios
  imports Interleave
begin

text \<open>
  Concrete inputs for the end-to-end scenarios of the specification: a directory tree
  \<open>root/Period (2025 H1)/{Channel 5, News}/13 January\<close> with three videos, and remote
  services that answer each call. The lemmas evaluate discovery, a complete two-item
  batch run of the atomic executor and a complete one-item run of the interleaved one on
  them in the kernel; the witnesses apply the component theorems there.
\<close>

subsection \<open>Inputs\<close>

definition ex_fs :: fsnode where
  "ex_fs = Dir [(''root'', Dir [(''Period (2025 H1)'', Dir [
     (''Channel 5'', Dir [(''13 January'', Dir [(''a.mp4'', File), (''sub'', Dir [(''b.mp4'', File)])])]),
     (''News'', Dir [(''13 January'', Dir [(''c.mp4'', File)])])])])]"

definition ch5_dir :: path where
  "ch5_dir = ''root/Period (2025 H1)/Channel 5/13 January''"
definition news_dir :: path where
  "news_dir = ''root/Period (2025 H1)/News/13 January''"

definition path_a :: path where
  "path_a = ''root/Period (2025 H1)/Channel 5/13 January/a.mp4''"
definition path_b :: path where
  "path_b = ''root/Period (2025 H1)/Channel 5/13 January/sub/b.mp4''"

definition ex_service :: service where
  "ex_service = \<lparr>submit_job = (\<lambda>p c. if p = path_b then Inr ''j2'' else Inr ''j1''),
                 wait_for_completion = (\<lambda>j f. if j = ''j2''
                    then Inl (HTTPStatusError 404 (JsonObject [(''detail'', ''Job not found'')]) ''Client error 404'')
                    else Inr ''1 00:00:00,000 --> 00:00:02,000 hello''),
                 open_write = (\<lambda>p. None)\<rparr>"

text \<open>A service whose answer to the first call is an HTTP 400 with a body that is not JSON.\<close>

definition bad_request_service :: service where
  "bad_request_service =
     \<lparr>submit_job = (\<lambda>p c. Inl (HTTPStatusError 400 (NotJson ''Expecting value'') ''Client error 400'')),
      wait_for_completion = (\<lambda>j f. Inr []),
      open_write = (\<lambda>p. None)\<rparr>"

text \<open>A service that differs from \<open>ex_service\<close> only in its answer to waiting on the
  job \<open>j2\<close> of the second video.\<close>

definition ex_wait_service :: service where
  "ex_wait_service = ex_service\<lparr>wait_for_completion := (\<lambda>j f. if j = ''j2'' then Inr ''other''
                                                         else wait_for_completion ex_service j f)\<rparr>"

abbreviation ex_st :: disc_state where "ex_st \<equiv> gather_work_items ex_fs [ch5_dir]"

text \<open>The pool of that batch after its first step: the first item started, the second
  still queued.\<close>

abbreviation ex_mid :: "(nat, effect list \<times> exc option) pool" where
  "ex_mid \<equiv> \<lparr>pending = [1], running = [0], completed = []\<rparr>"

text \<open>A one-item batch on \<open>News\<close> whose submission fails with the 400 that escapes the
  worker, and the complete interleaved run of it.\<close>

abbreviation news_st :: disc_state where "news_st \<equiv> gather_work_items ex_fs [news_dir]"

abbreviation news_line :: effect where
  "news_line \<equiv> Print ''Processing file: root/Period (2025 H1)/News/13 January/c.mp4 with language auto''"

abbreviation news_error :: exc where
  "news_error \<equiv> OtherException ''JSONDecodeError'' ''Expecting value''"

abbreviation news_run_state :: ipool where
  "news_run_state \<equiv> \<lparr>queue = [], active = [], finished = [0], unyielded = [], yielded = [0],
     trace = [(Thread 0, news_line), (MainThread, Print (''Error occurred in thread: '' @ exc_str news_error))]\<rparr>"

subsection \<open>Evaluation\<close>

lemma ex_gather:
  "gather_work_items ex_fs [ch5_dir] =
     \<lparr>heap = [base_conf, base_conf\<lparr>language := Some ''en''\<rparr>],
      items = [\<lparr>video_path = ''root/Period (2025 H1)/Channel 5/13 January/a.mp4'', config = 1\<rparr>,
               \<lparr>video_path = ''root/Period (2025 H1)/Channel 5/13 January/sub/b.mp4'', config = 1\<rparr>]\<rparr>"
  by code_simp

lemma ex_tasks: "batch_tasks ex_st = [0, 1]"
  by (simp add: batch_tasks_def ex_gather upt_rec)

lemma pool_run_two:
  "pool_reachable m w [a, b] \<lparr>pending = [], running = [], completed = [(b, w b), (a, w a)]\<rparr>"
  if "1 < m"
proof -
  let ?s0 = "pool_init [a, b] :: ('a, 'b) pool"
  have 1: "pool_step m w ?s0 \<lparr>pending = [b], running = [a], completed = []\<rparr>"
    using pool_step.start [of ?s0 a "[b]" m w] that by (simp add: pool_init_def)
  have 2: "pool_step m w \<lparr>pending = [b], running = [a], completed = []\<rparr> \<lparr>pending = [], running = [a, b], completed = []\<rparr>"
    using pool_step.start [of "\<lparr>pending = [b], running = [a], completed = []\<rparr>" b "[]" m w] that by simp
  have 3: "pool_step m w \<lparr>pending = [], running = [a, b], completed = []\<rparr> \<lparr>pending = [], running = [a], completed = [(b, w b)]\<rparr>"
    using pool_step.finish [of b "\<lparr>pending = [], running = [a, b], completed = []\<rparr>" m w] by (cases "a = b") simp_all
  have 4: "pool_step m w \<lparr>pending = [], running = [a], completed = [(b, w b)]\<rparr> \<lparr>pending = [], running = [], completed = [(b, w b), (a, w a)]\<rparr>"
    using pool_step.finish [of a "\<lparr>pending = [], running = [a], completed = [(b, w b)]\<rparr>" m w] by simp
  show ?thesis unfolding pool_reachable_def
    using 1 2 3 4 by (meson converse_rtranclp_into_rtranclp rtranclp.rtrancl_refl)
qed

lemma ex_run:
  "batch_run svc ex_fs [ch5_dir] [(1, batch_work svc ex_st 1), (0, batch_work svc ex_st 0)]"
proof -
  let ?S = "\<lparr>pending = [], running = [], completed = [(1::nat, batch_work svc ex_st 1), (0, batch_work svc ex_st 0)]\<rparr>"
  have r: "pool_reachable max_workers (batch_work svc ex_st) (batch_tasks ex_st) ?S"
    unfolding ex_tasks by (rule pool_run_two) (simp add: max_workers_def)
  have f: "pool_final ?S" by (simp add: pool_final_def)
  from batch_run.intros [OF refl r f] show ?thesis by simp
qed

lemma ex_log:
  "batch_log [(1, batch_work ex_service ex_st 1), (0, batch_work ex_service ex_st 0)] =
   [Print (''Processing file: '' @ path_b @ '' with language en''),
    Print (''Job j2 submitted for '' @ path_b @ '', waiting for transcription...''),
    Print (''HTTP error for '' @ path_b @ '': Client error 404''),
    Print (''Processing file: '' @ path_a @ '' with language en''),
    Print (''Job j1 submitted for '' @ path_a @ '', waiting for transcription...''),
    Print (''Transcript retrieved for '' @ path_a),
    WriteFile ''root/Period (2025 H1)/Channel 5/13 January/a.txt'' ''1 00:00:00,000 --> 00:00:02,000 hello'',
    Print (''Transcript saved to root/Period (2025 H1)/Channel 5/13 January/a.txt'')]"
  by (simp add: batch_log_def batch_work_def ex_gather process_single_file_def ex_service_def path_a_def path_b_def
      transcript_path_split str_rfind_def skip_leading_dots.simps handle_exception_def after_def base_conf_def Let_def)

lemma ex_items:
  "items ex_st = [\<lparr>video_path = path_a, config = 1\<rparr>, \<lparr>video_path = path_b, config = 1\<rparr>]"
  and ex_heap: "heap ex_st = [base_conf, base_conf\<lparr>language := Some ''en''\<rparr>]"
  by (simp_all add: ex_gather path_a_def path_b_def)

lemma transcript_path_a: "transcript_path path_a = ''root/Period (2025 H1)/Channel 5/13 January/a.txt''"
  by (simp add: path_a_def transcript_path_split str_rfind_def skip_leading_dots.simps)

lemma transcript_path_b: "transcript_path path_b = ''root/Period (2025 H1)/Channel 5/13 January/sub/b.txt''"
  by (simp add: path_b_def transcript_path_split str_rfind_def skip_leading_dots.simps)

subsection \<open>Witnesses\<close>

theorem batch_run_bound_witness:
  "pool_reachable max_workers (batch_work ex_service ex_st) (batch_tasks ex_st) (pool_init [0, 1]) \<and>
   length (running (pool_init [0, 1] :: (nat, effect list \<times> exc option) pool)) \<le> 8"
proof -
  have r: "pool_reachable max_workers (batch_work ex_service ex_st) (batch_tasks ex_st) (pool_init [0, 1])"
    by (simp add: pool_reachable_def ex_tasks)
  show ?thesis using r batch_run_bound [OF r] by simp
qed

theorem batch_run_isolation_witness:
  "WriteFile ''root/Period (2025 H1)/Channel 5/13 January/a.txt'' ''1 00:00:00,000 --> 00:00:02,000 hello''
     \<in> set (batch_log [(1, batch_work ex_service ex_st 1), (0, batch_work ex_service ex_st 0)])"
proof -
  have h1: "language (heap ex_st ! config (items ex_st ! 0)) = Some ''en''"
    by (simp add: ex_items ex_heap base_conf_def)
  have h2: "submit_job ex_service (video_path (items ex_st ! 0)) (heap ex_st ! config (items ex_st ! 0)) = Inr ''j1''"
    by (simp add: ex_items ex_service_def path_a_def path_b_def)
  have h3: "wait_for_completion ex_service ''j1'' ''srt'' = Inr ''1 00:00:00,000 --> 00:00:02,000 hello''"
    by (simp add: ex_service_def)
  have h4: "open_write ex_service (transcript_path (video_path (items ex_st ! 0))) = None"
    by (simp add: ex_service_def)
  have h0: "0 < length (items ex_st)" by (simp add: ex_items)
  show ?thesis
    using batch_run_isolation [OF ex_run [of ex_service] refl h0 h1 h2 h3 h4]
    by (simp add: ex_items transcript_path_a)
qed

theorem batch_run_reports_escape_witness:
  "Print (''Error occurred in thread: '' @ ''Expecting value'') \<in>
     set (batch_log [(1, batch_work bad_request_service ex_st 1), (0, batch_work bad_request_service ex_st 0)])"
proof -
  have h1: "snd (batch_work bad_request_service ex_st 0) = Some (OtherException ''JSONDecodeError'' ''Expecting value'')"
    by (simp add: batch_work_def process_single_file_def ex_items ex_heap base_conf_def bad_request_service_def
        Let_def after_def handle_exception_def response_detail_def)
  have h0: "0 < length (items ex_st)" by (simp add: ex_items)
  show ?thesis
    using batch_run_reports_escape [OF ex_run [of bad_request_service] refl h0 h1] by simp
qed

theorem process_single_file_escapes_witness:
  "snd (process_single_file bad_request_service (heap ex_st) (items ex_st ! 0)) =
     Some (OtherException ''JSONDecodeError'' ''Expecting value'') \<and>
   escapes (HTTPStatusError 400 (NotJson ''Expecting value'') ''Client error 400'')"
proof -
  have h: "snd (process_single_file bad_request_service (heap ex_st) (items ex_st ! 0)) =
     Some (OtherException ''JSONDecodeError'' ''Expecting value'')"
    by (simp add: process_single_file_def ex_items ex_heap base_conf_def bad_request_service_def
        Let_def after_def handle_exception_def response_detail_def)
  show ?thesis using h process_single_file_escapes [OF h] by (simp add: escapes_def)
qed

theorem process_single_file_writes_witness:
  "WriteFile ''root/Period (2025 H1)/Channel 5/13 January/a.txt'' ''1 00:00:00,000 --> 00:00:02,000 hello''
     \<in> set (fst (process_single_file ex_service (heap ex_st) (items ex_st ! 0))) \<and>
   ''root/Period (2025 H1)/Channel 5/13 January/a.txt'' = transcript_path (video_path (items ex_st ! 0))"
proof -
  have h: "WriteFile ''root/Period (2025 H1)/Channel 5/13 January/a.txt'' ''1 00:00:00,000 --> 00:00:02,000 hello''
     \<in> set (fst (process_single_file ex_service (heap ex_st) (items ex_st ! 0)))"
    by (simp add: process_single_file_def ex_items ex_heap base_conf_def ex_service_def path_a_def path_b_def
        Let_def transcript_path_a [unfolded path_a_def])
  show ?thesis using h process_single_file_writes [OF h] by simp
qed

theorem process_single_file_404_witness:
  "process_single_file ex_service (heap ex_st) (items ex_st ! 1) =
    ([Print (''Processing file: '' @ path_b @ '' with language en''),
      Print (''Job j2 submitted for '' @ path_b @ '', waiting for transcription...''),
      Print (''HTTP error for '' @ path_b @ '': Client error 404'')], None)"
proof -
  have "language (heap ex_st ! config (items ex_st ! 1)) = Some ''en''"
    by (simp add: ex_items ex_heap base_conf_def)
  moreover have "submit_job ex_service (video_path (items ex_st ! 1)) (heap ex_st ! config (items ex_st ! 1)) = Inr ''j2''"
    by (simp add: ex_items ex_service_def)
  moreover have "wait_for_completion ex_service ''j2'' ''srt'' =
                 Inl (HTTPStatusError 404 (JsonObject [(''detail'', ''Job not found'')]) ''Client error 404'')"
    by (simp add: ex_service_def)
  ultimately show ?thesis using process_single_file_404 by (simp add: ex_items)
qed

theorem process_single_file_local_witness:
  "wait_for_completion ex_wait_service ''j2'' ''srt'' \<noteq> wait_for_completion ex_service ''j2'' ''srt'' \<and>
   process_single_file ex_wait_service (heap ex_st) (items ex_st ! 0) =
   process_single_file ex_service (heap ex_st) (items ex_st ! 0)"
proof -
  have s: "submit_job ex_service (video_path (items ex_st ! 0)) (heap ex_st ! config (items ex_st ! 0)) = Inr ''j1''"
    by (simp add: ex_items ex_service_def path_a_def path_b_def)
  have "process_single_file ex_wait_service (heap ex_st) (items ex_st ! 0) =
        process_single_file ex_service (heap ex_st) (items ex_st ! 0)"
  proof (rule process_single_file_local)
    show "\<forall>job_id. submit_job ex_service (video_path (items ex_st ! 0)) (heap ex_st ! config (items ex_st ! 0)) = Inr job_id \<longrightarrow>
            wait_for_completion ex_wait_service job_id ''srt'' = wait_for_completion ex_service job_id ''srt''"
      using s by (simp add: ex_wait_service_def)
  qed (simp_all add: ex_wait_service_def)
  moreover have "wait_for_completion ex_wait_service ''j2'' ''srt'' \<noteq> wait_for_completion ex_service ''j2'' ''srt''"
    by (simp add: ex_wait_service_def ex_service_def)
  ultimately show ?thesis by blast
qed

theorem batch_fifo_witness:
  "pool_reachable max_workers (batch_work ex_service ex_st) (batch_tasks ex_st) ex_mid \<and>
   (\<exists>k \<le> length (items ex_st). pending ex_mid = [k..<length (items ex_st)] \<and>
      mset (running ex_mid) + mset (map fst (completed ex_mid)) = mset [0..<k])"
proof -
  have "pool_step max_workers (batch_work ex_service ex_st) (pool_init [0, 1]) ex_mid"
    using pool_step.start [of "pool_init [0, 1]" 0 "[1]" max_workers "batch_work ex_service ex_st"]
    by (simp add: pool_init_def max_workers_def)
  then have r: "pool_reachable max_workers (batch_work ex_service ex_st) (batch_tasks ex_st) ex_mid"
    unfolding pool_reachable_def ex_tasks by blast
  show ?thesis using batch_fifo [OF refl r] r by blast
qed

theorem batch_run_one_outcome_per_item_witness:
  "batch_run ex_service ex_fs [ch5_dir] [(1, batch_work ex_service ex_st 1), (0, batch_work ex_service ex_st 0)] \<and>
   mset (map fst [(1::nat, batch_work ex_service ex_st 1), (0, batch_work ex_service ex_st 0)]) =
     mset [0..<length (items ex_st)]"
  using batch_run_one_outcome_per_item [OF ex_run [of ex_service]] ex_run [of ex_service]
  by blast

theorem batch_never_overwrites_video_witness:
  "''root/Period (2025 H1)/Channel 5/13 January/a.txt'' \<notin> video_path ` set (items ex_st) \<and>
   (\<exists>i < length (items ex_st).
      ''root/Period (2025 H1)/Channel 5/13 January/a.txt'' = transcript_path (video_path (items ex_st ! i)))"
proof -
  have h: "WriteFile ''root/Period (2025 H1)/Channel 5/13 January/a.txt'' ''1 00:00:00,000 --> 00:00:02,000 hello''
     \<in> set (batch_log [(1, batch_work ex_service ex_st 1), (0, batch_work ex_service ex_st 0)])"
    unfolding ex_log by simp
  show ?thesis using batch_never_overwrites_video [OF ex_run [of ex_service] h] by blast
qed

lemma news_gather:
  "news_st = \<lparr>heap = [base_conf, base_conf\<lparr>language := Some ''auto''\<rparr>],
     items = [\<lparr>video_path = ''root/Period (2025 H1)/News/13 January/c.mp4'', config = 1\<rparr>]\<rparr>"
  by code_simp

lemma news_work: "batch_work bad_request_service news_st 0 = ([news_line], Some news_error)"
  by (simp add: news_gather batch_work_def process_single_file_def base_conf_def bad_request_service_def
      Let_def after_def handle_exception_def response_detail_def)

lemma news_run: "ibatch_run bad_request_service ex_fs [news_dir] news_run_state"
proof (rule ibatch_run.intros [OF refl])
  have t: "batch_tasks news_st = [0]" by (simp add: batch_tasks_def news_gather)
  have r: "ireachable max_workers (batch_work bad_request_service news_st) [0]
     \<lparr>queue = [], active = [], finished = [0], unyielded = [], yielded = [0],
       trace = map (\<lambda>e. (Thread 0, e)) (fst (batch_work bad_request_service news_st 0)) @
               map (\<lambda>e. (MainThread, e)) (main_report (batch_work bad_request_service news_st 0))\<rparr>"
    by (rule ireachable_single [OF max_workers_pos])
  have "map (\<lambda>e. (Thread 0, e)) (fst (batch_work bad_request_service news_st 0)) @
        map (\<lambda>e. (MainThread, e)) (main_report (batch_work bad_request_service news_st 0)) = trace news_run_state"
    unfolding news_work by (simp add: main_report_def)
  then show "ireachable max_workers (batch_work bad_request_service news_st) (batch_tasks news_st) news_run_state"
    using r unfolding t by simp
  show "ipool_final news_run_state" by (simp add: ipool_final_def)
qed

theorem ibatch_item_lines_witness:
  "ibatch_run bad_request_service ex_fs [news_dir] news_run_state \<and>
   0 < length (items news_st) \<and>
   proj (Thread 0) (trace news_run_state) = fst (process_single_file bad_request_service (heap news_st) (items news_st ! 0))"
proof -
  have i: "0 < length (items news_st)" by (simp add: news_gather)
  show ?thesis using ibatch_item_lines [OF news_run i] news_run i by blast
qed

theorem ibatch_error_after_witness:
  "\<exists>pre post. trace news_run_state = pre @ (MainThread, Print (''Error occurred in thread: '' @ exc_str news_error)) # post \<and>
              proj (Thread 0) pre = fst (batch_work bad_request_service news_st 0)"
proof -
  have i: "0 < length (items news_st)" by (simp add: news_gather)
  have h: "snd (batch_work bad_request_service news_st 0) = Some news_error" by (simp add: news_work)
  show ?thesis using ibatch_error_after [OF news_run refl i h] .
qed

theorem batch_thread_errors_witness:
  "snd (batch_work bad_request_service ex_st 0) = Some (OtherException ''JSONDecodeError'' ''Expecting value'') \<and>
   (\<exists>body msg. response_detail body = Inl (OtherException ''JSONDecodeError'' ''Expecting value'') \<and>
     (submit_job bad_request_service (video_path (items ex_st ! 0)) (heap ex_st ! config (items ex_st ! 0)) =
        Inl (HTTPStatusError 400 body msg) \<or>
      (\<exists>job_id. submit_job bad_request_service (video_path (items ex_st ! 0)) (heap ex_st ! config (items ex_st ! 0)) = Inr job_id \<and>
         (wait_for_completion bad_request_service job_id ''srt'' = Inl (HTTPStatusError 400 body msg) \<or>
          (\<exists>t. wait_for_completion bad_request_service job_id ''srt'' = Inr t \<and>
               open_write bad_request_service (transcript_path (video_path (items ex_st ! 0))) =
                 Some (HTTPStatusError 400 body msg))))))"
proof -
  have h1: "snd (batch_work bad_request_service ex_st 0) = Some (OtherException ''JSONDecodeError'' ''Expecting value'')"
    by (simp add: batch_work_def process_single_file_def ex_items ex_heap base_conf_def bad_request_service_def
        Let_def after_def handle_exception_def response_detail_def)
  have h0: "0 < length (items ex_st)" by (simp add: ex_items)
  show ?thesis using batch_thread_errors [OF refl h0 h1] h1 by blast
qed

end
