(* ===== verification/Dates.thy ===== *)
theory Dates
  imports Client
begin

text \<open>
  The date computation of lines 148--152: \<open>datetime.today() - timedelta(days=1)\<close>
  and \<open>strftime("%d %B")\<close>. Only the date part matters. Subtracting one day is
  CPython's \<open>normalize_y_m_d\<close> (\<open>_datetimemodule.c\<close>) on a day of 0: the previous
  month's last day, or December 31 of the previous year, and \<open>OverflowError\<close> below
  year 1. \<open>%B\<close> is the month's full name in the C locale.
\<close>

subsection \<open>Definitions\<close>

record date =
  year :: nat
  month :: nat
  day :: nat

definition is_leap :: "nat \<Rightarrow> bool" where
  "is_leap y \<longleftrightarrow> y mod 4 = 0 \<and> (y mod 100 \<noteq> 0 \<or> y mod 400 = 0)"

definition days_in_month :: "nat \<Rightarrow> nat \<Rightarrow> nat" where
  "days_in_month y m =
     (if m = 2 then (if is_leap y then 29 else 28)
      else if m \<in> {4, 6, 9, 11} then 30 else 31)"

text \<open>\<open>MINYEAR = 1\<close>, \<open>MAXYEAR = 9999\<close>.\<close>

definition valid_date :: "date \<Rightarrow> bool" where
  "valid_date d \<longleftrightarrow> 1 \<le> year d \<and> year d \<le> 9999 \<and> 1 \<le> month d \<and> month d \<le> 12 \<and>
                    1 \<le> day d \<and> day d \<le> days_in_month (year d) (month d)"

text \<open>\<open>d - timedelta(days=1)\<close>: the day becomes 0 and \<open>normalize_y_m_d\<close> moves to the
  last day of the previous month, or of December of the previous year; a year below
  \<open>MINYEAR\<close> raises \<open>OverflowError\<close>.\<close>

definition sub_one_day :: "date \<Rightarrow> exc + date" where
  "sub_one_day d =
     (if 1 < day d then Inr (d\<lparr>day := day d - 1\<rparr>)
      else if 1 < month d then Inr (d\<lparr>month := month d - 1, day := days_in_month (year d) (month d - 1)\<rparr>)
      else if 1 < year d then Inr \<lparr>year = year d - 1, month = 12, day = 31\<rparr>
      else Inl (OtherException ''OverflowError'' ''date value out of range''))"

definition month_names :: "string list" where
  "month_names = [''January'', ''February'', ''March'', ''April'', ''May'', ''June'', ''July'',
                  ''August'', ''September'', ''October'', ''November'', ''December'']"

text \<open>\<open>%d\<close>: the day as two decimal digits.\<close>

definition digit_char :: "nat \<Rightarrow> char" where
  "digit_char n = char_of (48 + n)"

definition two_digits :: "nat \<Rightarrow> string" where
  "two_digits n = [digit_char (n div 10), digit_char (n mod 10)]"

definition strftime_day_month :: "date \<Rightarrow> string" where
  "strftime_day_month d = two_digits (day d) @ '' '' @ month_names ! (month d - 1)"

text \<open>CPython's \<open>ymd_to_ord\<close>: the proleptic Gregorian ordinal, day 1 being
  0001-01-01; the abstraction under which subtracting a day is subtracting one.\<close>

definition days_before_year :: "nat \<Rightarrow> nat" where
  "days_before_year y = (y - 1) * 365 + (y - 1) div 4 - (y - 1) div 100 + (y - 1) div 400"

definition days_before_month :: "nat \<Rightarrow> nat \<Rightarrow> nat" where
  "days_before_month y m = sum_list (map (days_in_month y) [1..<m])"

definition toordinal :: "date \<Rightarrow> nat" where
  "toordinal d = days_before_year (year d) + days_before_month (year d) (month d) + day d"

text \<open>Reading a date folder name back: the day and the month a string of the form
  \<open>"%d %B"\<close> denotes, as \<open>datetime.strptime(s, "%d %B")\<close> would recover them.\<close>

definition digit_val :: "char \<Rightarrow> nat" where
  "digit_val c = of_char c - 48"

fun month_index :: "string list \<Rightarrow> string \<Rightarrow> nat \<Rightarrow> nat option" where
  "month_index [] name i = None"
| "month_index (x # xs) name i = (if x = name then Some i else month_index xs name (Suc i))"

definition parse_day_month :: "string \<Rightarrow> (nat \<times> nat) option" where
  "parse_day_month s =
     (case s of
        c1 # c2 # sp # name \<Rightarrow>
          if sp = CHR '' '' then map_option (\<lambda>m. (10 * digit_val c1 + digit_val c2, Suc m)) (month_index month_names name 0)
          else None
      | _ \<Rightarrow> None)"

subsection \<open>Lemmas\<close>

lemma days_before_year_Suc:
  assumes "1 \<le> x"
  shows "days_before_year (Suc x) = days_before_year x + (if is_leap x then 366 else 365)"
proof -
  obtain z where x: "x = Suc z" using assms by (cases x) auto
  define A B C where "A = z div 4" and "B = z div 100" and "C = z div 400"
  have l: "days_before_year (Suc x) = z * 365 + 365 + x div 4 - x div 100 + x div 400"
    by (simp add: days_before_year_def x)
  have r: "days_before_year x = z * 365 + A - B + C"
    by (simp add: days_before_year_def x A_def B_def C_def)
  have a: "x div 4 = A + (if x mod 4 = 0 then 1 else 0)"
   and b: "x div 100 = B + (if x mod 100 = 0 then 1 else 0)"
   and c: "x div 400 = C + (if x mod 400 = 0 then 1 else 0)"
    by (simp_all add: x div_Suc A_def B_def C_def)
  have BA: "B \<le> A" by (simp add: A_def B_def div_le_mono2)
  have m1: "x mod 100 = 0 \<Longrightarrow> x mod 4 = 0" and m2: "x mod 400 = 0 \<Longrightarrow> x mod 100 = 0"
    by presburger+
  show ?thesis
  proof (cases "x mod 4 = 0")
    case False
    have n1: "x mod 100 \<noteq> 0" using m1 False by blast
    have "x mod 400 \<noteq> 0"
    proof
      assume "x mod 400 = 0"
      then have "x mod 100 = 0" by (rule m2)
      with n1 show False by simp
    qed
    with n1 False show ?thesis using l r a b c BA by (simp add: is_leap_def) linarith
  next
    case True
    show ?thesis
    proof (cases "x mod 100 = 0")
      case False
      have "x mod 400 \<noteq> 0"
      proof
        assume "x mod 400 = 0"
        then have "x mod 100 = 0" by (rule m2)
        with False show False by simp
      qed
      with True False show ?thesis using l r a b c BA by (simp add: is_leap_def) linarith
    next
      case h: True
      with True show ?thesis using l r a b c BA by (cases "x mod 400 = 0") (simp_all add: is_leap_def, linarith+)
    qed
  qed
qed

lemma days_before_month_Suc:
  "1 \<le> m \<Longrightarrow> days_before_month y (Suc m) = days_before_month y m + days_in_month y m"
  by (simp add: days_before_month_def)

lemma days_before_month_12: "days_before_month y 12 = (if is_leap y then 335 else 334)"
  by (simp add: days_before_month_def days_in_month_def upt_rec)

lemma days_in_month_pos: "1 \<le> days_in_month y m"
  by (simp add: days_in_month_def)

text \<open>Claim C23: subtracting a day is the previous day on the ordinal line: when it
  succeeds on a valid date, \<open>toordinal\<close> of the result is one less.\<close>

theorem sub_one_day_ordinal:
  assumes "valid_date d" "sub_one_day d = Inr d'"
  shows "toordinal d' + 1 = toordinal d"
proof (cases "1 < day d")
  case True
  with assms show ?thesis by (auto simp: sub_one_day_def toordinal_def)
next
  case nd: False
  with assms(1) have d1: "day d = 1" by (simp add: valid_date_def)
  show ?thesis
  proof (cases "1 < month d")
    case True
    then have "days_before_month (year d) (month d) =
               days_before_month (year d) (month d - 1) + days_in_month (year d) (month d - 1)"
      using days_before_month_Suc [of "month d - 1" "year d"] by simp
    with True nd d1 assms(2) show ?thesis by (auto simp: sub_one_day_def toordinal_def)
  next
    case nm: False
    with assms(1) have m1: "month d = 1" by (simp add: valid_date_def)
    show ?thesis
    proof (cases "1 < year d")
      case True
      then have "days_before_year (year d) = days_before_year (year d - 1) +
                   (if is_leap (year d - 1) then 366 else 365)"
        using days_before_year_Suc [of "year d - 1"] by simp
      moreover have "days_before_month (year d) 1 = 0" by (simp add: days_before_month_def)
      ultimately show ?thesis using True nd nm d1 m1 assms(2)
        by (auto simp: sub_one_day_def toordinal_def days_before_month_12)
    next
      case False
      with nd nm assms(2) show ?thesis by (simp add: sub_one_day_def)
    qed
  qed
qed

lemma sub_one_day_valid:
  assumes "valid_date d" "\<not> (year d = 1 \<and> month d = 1 \<and> day d = 1)"
  shows "\<exists>d'. sub_one_day d = Inr d' \<and> valid_date d'"
  using assms days_in_month_pos [of "year d" "month d - 1"]
  by (auto simp: sub_one_day_def valid_date_def days_in_month_def)

text \<open>Claim C24: on valid dates, the subtraction fails exactly on 0001-01-01, with
  \<open>OverflowError\<close>.\<close>

theorem sub_one_day_overflow:
  "valid_date d \<Longrightarrow> sub_one_day d = Inl e \<longleftrightarrow>
     year d = 1 \<and> month d = 1 \<and> day d = 1 \<and> e = OtherException ''OverflowError'' ''date value out of range''"
  by (auto simp: sub_one_day_def valid_date_def)

lemma digit_char_not_sep:
  assumes "n < 10"
  shows "digit_char n \<noteq> sep_char"
proof
  assume "digit_char n = sep_char"
  then have "(of_char (char_of (48 + n) :: char) :: nat) = of_char sep_char"
    by (simp add: digit_char_def)
  with assms show False by (simp add: of_char_of)
qed

lemma month_names_no_sep: "i < 12 \<Longrightarrow> sep_char \<notin> set (month_names ! i)"
  by (auto simp: month_names_def nth_Cons' split: if_splits)

lemma strftime_no_sep:
  assumes "valid_date d"
  shows "strftime_day_month d \<noteq> [] \<and> sep_char \<notin> set (strftime_day_month d)"
proof -
  have "day d \<le> 31" using assms by (simp add: valid_date_def days_in_month_def split: if_splits)
  then have "day d div 10 < 10" by simp
  moreover have "month d - 1 < 12" using assms unfolding valid_date_def by linarith
  ultimately have "digit_char (day d div 10) \<noteq> sep_char" "digit_char (day d mod 10) \<noteq> sep_char"
    and "sep_char \<notin> set (month_names ! (month d - 1))"
    by (simp_all add: digit_char_not_sep month_names_no_sep)
  then show ?thesis
    by (auto simp: strftime_day_month_def two_digits_def)
qed

lemma digit_val_digit_char: "n < 10 \<Longrightarrow> digit_val (digit_char n) = n"
  by (simp add: digit_val_def digit_char_def)

lemma month_index_nth:
  "distinct xs \<Longrightarrow> i < length xs \<Longrightarrow> month_index xs (xs ! i) k = Some (k + i)"
proof (induction xs arbitrary: i k)
  case (Cons x xs)
  show ?case
  proof (cases i)
    case 0
    then show ?thesis by simp
  next
    case (Suc j)
    then have "x \<noteq> xs ! j" using Cons.prems by auto
    with Suc Cons show ?thesis by simp
  qed
qed simp

lemma days_in_month_le_31: "days_in_month y m \<le> 31"
  by (simp add: days_in_month_def)

lemma distinct_month_names: "distinct month_names"
  by (simp add: month_names_def)

text \<open>Claim C25: the date folder name round-trips: for every valid date, reading the
  \<open>"%d %B"\<close> string back gives its day and month, so distinct days of a year always
  name distinct folders.\<close>

theorem strftime_roundtrip:
  assumes "valid_date d"
  shows "parse_day_month (strftime_day_month d) = Some (day d, month d)"
proof -
  have dd: "day d \<le> 31" using assms days_in_month_le_31 [of "year d" "month d"] by (simp add: valid_date_def)
  then have t: "day d div 10 < 10" "day d mod 10 < 10" by simp_all
  have m: "month d - 1 < length month_names" "Suc (month d - 1) = month d"
    using assms by (auto simp: valid_date_def month_names_def)
  have "month_index month_names (month_names ! (month d - 1)) 0 = Some (month d - 1)"
    using month_index_nth [OF distinct_month_names m(1)] by simp
  moreover have "10 * (day d div 10) + day d mod 10 = day d" by simp
  ultimately show ?thesis using t m(2)
    by (simp add: parse_day_month_def strftime_day_month_def two_digits_def digit_val_digit_char)
qed

text \<open>\<open>%d\<close> pads the day to two digits: the 5th of March is formatted \<open>05 March\<close>, so
  the date directories must be named with a leading zero.\<close>

theorem strftime_zero_padded:
  "strftime_day_month \<lparr>year = 2025, month = 3, day = 5\<rparr> = ''05 March''"
  by code_simp

theorem strftime_roundtrip_witness:
  "valid_date \<lparr>year = 2025, month = 3, day = 5\<rparr> \<and>
   parse_day_month (strftime_day_month \<lparr>year = 2025, month = 3, day = 5\<rparr>) = Some (5, 3)"
proof -
  have v: "valid_date \<lparr>year = 2025, month = 3, day = 5\<rparr>" by (simp add: valid_date_def days_in_month_def)
  show ?thesis using strftime_roundtrip [OF v] v by simp
qed

end
