(* ===== verification/Driver.thy ===== *)
theory Driver
  imports Batch Dates
begin

text \<open>
  BatchSequencer: the module-level code of lines 147--176. It formats yesterday's date,
  builds the five channel directories with f-strings, and runs \<open>batch_1\<close> and
  \<open>batch_2\<close> one after the other with \<open>time.sleep(30)\<close> between them. A run of the
  script is a relation on the current date, the file system and the service: each batch
  is any complete run of the orchestrator, and the observable trace is the printed lines,
  the written files and the pause. An exception from the date arithmetic is not caught and
  ends the process.
\<close>

subsection \<open>Definitions\<close>

text \<open>Lines 155--156.\<close>

definition g_drive_file_path :: path where
  "g_drive_file_path = ''your_file_path''"

definition monitoring_period :: string where
  "monitoring_period = ''Period (2025 H1)''"

text \<open>The f-strings of lines 158--162, one per channel, of the formatted date.\<close>

definition channel_dir :: "string \<Rightarrow> string \<Rightarrow> path" where
  "channel_dir channel formatted_date =
     g_drive_file_path @ ''/'' @ monitoring_period @ ''/'' @ channel @ ''/'' @ formatted_date"

definition CH5_dir :: "string \<Rightarrow> path" where
  "CH5_dir formatted_date = channel_dir ''Channel 5'' formatted_date"

definition CH8_dir :: "string \<Rightarrow> path" where
  "CH8_dir formatted_date = channel_dir ''Channel 8'' formatted_date"

definition CHU_dir :: "string \<Rightarrow> path" where
  "CHU_dir formatted_date = channel_dir ''Channel U'' formatted_date"

definition Suria_dir :: "string \<Rightarrow> path" where
  "Suria_dir formatted_date = channel_dir ''Suria'' formatted_date"

definition Vasantham_dir :: "string \<Rightarrow> path" where
  "Vasantham_dir formatted_date = channel_dir ''Vasantham'' formatted_date"

text \<open>Lines 164--165.\<close>

definition batch_1 :: "string \<Rightarrow> path list" where
  "batch_1 formatted_date = [CH5_dir formatted_date, CH8_dir formatted_date]"

definition batch_2 :: "string \<Rightarrow> path list" where
  "batch_2 formatted_date = [CHU_dir formatted_date, Suria_dir formatted_date, Vasantham_dir formatted_date]"

text \<open>The script's observable events: the effects of its statements and of the batches,
  and the pause of \<open>time.sleep\<close> in seconds.\<close>

datatype event = Out effect | Sleep nat

text \<open>Lines 167--176, given what each batch call put out: the driver's own lines, the first
  batch's output, the pause, the second batch's output.\<close>

definition script_out :: "effect list \<Rightarrow> effect list \<Rightarrow> event list" where
  "script_out out1 out2 =
     [Out (Print ''Processing Batch 1 in parallel...'')] @ map Out out1 @
     [Out (Print ''Waiting before starting Batch 2...''), Sleep 30,
      Out (Print ''Processing Batch 2 in parallel...'')] @ map Out out2 @
     [Out (Print ''All batches processed.'')]"

text \<open>The same once both batches have returned, each batch's output being its log.\<close>

definition script_events :: "(nat \<times> (effect list \<times> exc option)) list \<Rightarrow>
                             (nat \<times> (effect list \<times> exc option)) list \<Rightarrow> event list" where
  "script_events done1 done2 = script_out (batch_log done1) (batch_log done2)"

text \<open>A run of the whole script from the current date \<open>today\<close>: either the date
  arithmetic of line 149 raises before any output, or the two batches run to completion in
  order. The file system is the one both batches see (the transcripts batch 1 writes end in
  \<open>.txt\<close> and are never discovered).\<close>

inductive script_run :: "service \<Rightarrow> fsnode \<Rightarrow> date \<Rightarrow> event list \<Rightarrow> exc option \<Rightarrow> bool" where
  overflow: "sub_one_day today = Inl e \<Longrightarrow> script_run svc fs today [] (Some e)"
| complete: "sub_one_day today = Inr yesterday_date \<Longrightarrow>
             formatted = strftime_day_month yesterday_date \<Longrightarrow>
             batch_run svc fs (batch_1 formatted) done1 \<Longrightarrow>
             batch_run svc fs (batch_2 formatted) done2 \<Longrightarrow>
             script_run svc fs today (script_events done1 done2) None"

subsection \<open>Lemmas\<close>

lemma channel_dir_shape:
  "channel_dir channel fd = (g_drive_file_path @ ''/'' @ monitoring_period) @ sep_char # channel @ sep_char # fd"
  by (simp add: channel_dir_def)

lemma get_language_channel_dir_fd:
  "fd \<noteq> [] \<Longrightarrow> sep_char \<notin> set fd \<Longrightarrow> channel \<noteq> [] \<Longrightarrow> sep_char \<notin> set channel \<Longrightarrow>
   get_language_from_directory (channel_dir channel fd) = dict_get language_map channel ''auto''"
  unfolding channel_dir_shape by (rule get_language_channel_dir)


subsection \<open>Properties\<close>

text \<open>Claim C17: for every valid date, the five configured directories resolve to the
  intended languages: \<open>Channel 5\<close> to \<open>en\<close>, \<open>Channel 8\<close> and \<open>Channel U\<close>
  to \<open>cmn\<close>, \<open>Suria\<close> to \<open>ms\<close> and \<open>Vasantham\<close> to \<open>ta\<close>, because the
  formatted date is never empty and contains no separator.\<close>

theorem script_languages:
  assumes "valid_date yesterday_date"
  shows "map get_language_from_directory
           (batch_1 (strftime_day_month yesterday_date) @ batch_2 (strftime_day_month yesterday_date)) =
         [''en'', ''cmn'', ''cmn'', ''ms'', ''ta'']"
proof -
  let ?fd = "strftime_day_month yesterday_date"
  have "?fd \<noteq> []" "sep_char \<notin> set ?fd" using strftime_no_sep [OF assms] by simp_all
  then show ?thesis
    by (simp add: batch_1_def batch_2_def CH5_dir_def CH8_dir_def CHU_dir_def Suria_dir_def Vasantham_dir_def
        get_language_channel_dir_fd dict_get_def language_map_def)
qed



end
