(* ===== verification/Utilities.thy ===== *)
theory Utilities
  imports Client
begin

text \<open>
  The single-job utilities of lines 26--57, defined but never called by the script:
  \<open>getTranscript\<close> fetches the result of the fixed job \<open>"00123"\<close> in \<open>srt\<close> format
  and saves it to \<open>00123.txt\<close>, handling HTTP 404 and 401; \<open>getJobIDs\<close> prints one
  line per job of \<open>client.list_jobs()\<close>. The client's answers are given by a
  \<open>job_client\<close> record; a job is the JSON object the service returns, an association list
  from keys to their printed values.
\<close>

subsection \<open>Definitions\<close>

record job_client =
  get_job_result :: "string \<Rightarrow> string \<Rightarrow> exc + string"
  list_jobs :: "exc + (string \<times> string) list list"

text \<open>\<open>d[k]\<close> on a dictionary with string keys: \<open>KeyError\<close> with the key's
  \<open>repr\<close> as its message when the key is missing.\<close>

definition dict_getitem :: "(string \<times> 'v) list \<Rightarrow> string \<Rightarrow> exc + 'v" where
  "dict_getitem d k =
     (case map_of d k of Some v \<Rightarrow> Inr v | None \<Rightarrow> Inl (OtherException ''KeyError'' (squote # k @ [squote])))"

text \<open>The handler of lines 40--46: 404 and 401 are reported, every other
  \<open>HTTPStatusError\<close> is re-raised, and other exceptions are not caught.\<close>

definition handle_get_error :: "string \<Rightarrow> exc \<Rightarrow> effect list \<times> exc option" where
  "handle_get_error job_id e =
     (case e of
        HTTPStatusError code body msg \<Rightarrow>
          (if code = 404 then ([Print (''Job '' @ job_id @ '' not found!'')], None)
           else if code = 401 then ([Print ''Invalid API key!''], None)
           else ([], Some e))
      | OtherException name msg \<Rightarrow> ([], Some e))"

text \<open>Lines 27--46; \<open>open_txt\<close> is the answer of \<open>open(txt_file_path, "w")\<close>.\<close>

definition getTranscript :: "job_client \<Rightarrow> (path \<Rightarrow> exc option) \<Rightarrow> effect list \<times> exc option" where
  "getTranscript client open_txt =
     (let job_id = ''00123''
      in case get_job_result client job_id ''srt'' of
           Inl e \<Rightarrow> handle_get_error job_id e
         | Inr transcript \<Rightarrow>
           (let retrieved = [Print ''Transcript retrieved successfully!''];
                txt_file_path = job_id @ ''.txt''
            in case open_txt txt_file_path of
                 Some e \<Rightarrow> (retrieved @ fst (handle_get_error job_id e), snd (handle_get_error job_id e))
               | None \<Rightarrow> (retrieved @ [WriteFile txt_file_path transcript,
                                       Print (''Transcript saved to '' @ txt_file_path)], None)))"

text \<open>The f-string of line 57, evaluated left to right: the first missing key raises.\<close>

definition job_line :: "(string \<times> string) list \<Rightarrow> exc + string" where
  "job_line job =
     (case dict_getitem job ''id'' of
        Inl e \<Rightarrow> Inl e
      | Inr job_id \<Rightarrow>
        (case dict_getitem job ''data_name'' of
           Inl e \<Rightarrow> Inl e
         | Inr data_name \<Rightarrow>
           (case dict_getitem job ''created_at'' of
              Inl e \<Rightarrow> Inl e
            | Inr created_at \<Rightarrow>
                Inr (''Job ID: '' @ job_id @ '', Data file name: '' @ data_name @ '', created at:'' @ created_at))))"

text \<open>The loop of lines 56--57.\<close>

fun print_jobs :: "(string \<times> string) list list \<Rightarrow> effect list \<times> exc option" where
  "print_jobs [] = ([], None)"
| "print_jobs (job # jobs) =
     (case job_line job of
        Inl e \<Rightarrow> ([], Some e)
      | Inr line \<Rightarrow> (Print line # fst (print_jobs jobs), snd (print_jobs jobs)))"

text \<open>Lines 49--57: an empty list is falsy and prints nothing.\<close>

definition getJobIDs :: "job_client \<Rightarrow> effect list \<times> exc option" where
  "getJobIDs client =
     (case list_jobs client of
        Inl e \<Rightarrow> ([], Some e)
      | Inr jobs_list \<Rightarrow> (if jobs_list \<noteq> [] then print_jobs jobs_list else ([], None)))"

subsection \<open>Lemmas\<close>

lemma print_jobs_append:
  assumes "\<forall>job \<in> set js. \<exists>l. job_line job = Inr l"
  shows "print_jobs (js @ rest) =
           (map (\<lambda>job. Print (projr (job_line job))) js @ fst (print_jobs rest), snd (print_jobs rest))"
  using assms by (induction js) auto

subsection \<open>Properties\<close>

text \<open>Claim C27: when every job has the keys \<open>id\<close>, \<open>data_name\<close> and \<open>created_at\<close>,
  \<open>getJobIDs\<close> prints exactly one line per job, in the service's order, and returns.\<close>

theorem getJobIDs_lines:
  assumes "list_jobs client = Inr jobs" "\<forall>job \<in> set jobs. \<exists>l. job_line job = Inr l"
  shows "getJobIDs client = (map (\<lambda>job. Print (projr (job_line job))) jobs, None)"
proof -
  have "print_jobs jobs = (map (\<lambda>job. Print (projr (job_line job))) jobs, None)"
    using print_jobs_append [OF assms(2), of "[]"] by simp
  then show ?thesis using assms(1) by (cases jobs) (simp_all add: getJobIDs_def)
qed

text \<open>Claim C26: \<open>getTranscript\<close> returns normally exactly when the job result was
  saved or the service answered 404 or 401; any other HTTP error is re-raised and any other
  exception (an \<open>OSError\<close> from \<open>open\<close> included) propagates.\<close>

theorem getTranscript_escapes:
  "snd (getTranscript client open_txt) = None \<longleftrightarrow>
   (case get_job_result client ''00123'' ''srt'' of
      Inl e \<Rightarrow> (\<exists>body msg. e = HTTPStatusError 404 body msg \<or> e = HTTPStatusError 401 body msg)
    | Inr t \<Rightarrow> (case open_txt ''00123.txt'' of None \<Rightarrow> True
                | Some e \<Rightarrow> (\<exists>body msg. e = HTTPStatusError 404 body msg \<or> e = HTTPStatusError 401 body msg)))"
  by (auto simp: getTranscript_def handle_get_error_def Let_def split: sum.splits option.splits exc.splits)

text \<open>Claim C28: a job without one of the three keys stops the loop with \<open>KeyError\<close>
  after the lines of the jobs before it; the jobs after it are not printed.\<close>

theorem getJobIDs_keyerror:
  assumes "list_jobs client = Inr (js @ job # rest)"
    and "\<forall>j \<in> set js. \<exists>l. job_line j = Inr l" and "job_line job = Inl e"
  shows "getJobIDs client = (map (\<lambda>j. Print (projr (job_line j))) js, Some e)"
  using assms print_jobs_append [OF assms(2), of "job # rest"] by (simp add: getJobIDs_def)

theorem getJobIDs_lines_witness:
  "getJobIDs \<lparr>get_job_result = (\<lambda>j f. Inr []),
              list_jobs = Inr [[(''id'', ''42''), (''data_name'', ''a.mp4''), (''created_at'', ''2025-01-13'')]]\<rparr> =
   ([Print ''Job ID: 42, Data file name: a.mp4, created at:2025-01-13''], None)"
proof -
  let ?c = "\<lparr>get_job_result = (\<lambda>j f. Inr []),
             list_jobs = Inr [[(''id'', ''42''), (''data_name'', ''a.mp4''), (''created_at'', ''2025-01-13'')]]\<rparr>"
  have l: "list_jobs ?c = Inr [[(''id'', ''42''), (''data_name'', ''a.mp4''), (''created_at'', ''2025-01-13'')]]"
    by simp
  have k: "\<forall>job \<in> set [[(''id'', ''42''), (''data_name'', ''a.mp4''), (''created_at'', ''2025-01-13'')]].
             \<exists>l. job_line job = Inr l"
    by (simp add: job_line_def dict_getitem_def)
  show ?thesis using getJobIDs_lines [OF l k] by (simp add: job_line_def dict_getitem_def)
qed

theorem getJobIDs_keyerror_witness:
  "getJobIDs \<lparr>get_job_result = (\<lambda>j f. Inr []),
              list_jobs = Inr [[(''id'', ''42''), (''data_name'', ''a.mp4''), (''created_at'', ''2025-01-13'')],
                               [(''id'', ''43'')], []]\<rparr> =
   ([Print ''Job ID: 42, Data file name: a.mp4, created at:2025-01-13''],
    Some (OtherException ''KeyError'' (squote # ''data_name'' @ [squote])))"
proof -
  let ?c = "\<lparr>get_job_result = (\<lambda>j f. Inr []),
              list_jobs = Inr [[(''id'', ''42''), (''data_name'', ''a.mp4''), (''created_at'', ''2025-01-13'')],
                               [(''id'', ''43'')], []]\<rparr>"
  have l: "list_jobs ?c = Inr ([[(''id'', ''42''), (''data_name'', ''a.mp4''), (''created_at'', ''2025-01-13'')]] @
                              [(''id'', ''43'')] # [[]])"
    by simp
  have k: "\<forall>j \<in> set [[(''id'', ''42''), (''data_name'', ''a.mp4''), (''created_at'', ''2025-01-13'')]].
             \<exists>l. job_line j = Inr l"
    by (simp add: job_line_def dict_getitem_def)
  have e: "job_line [(''id'', ''43'')] = Inl (OtherException ''KeyError'' (squote # ''data_name'' @ [squote]))"
    by (simp add: job_line_def dict_getitem_def)
  show ?thesis using getJobIDs_keyerror [OF l k e] by (simp add: job_line_def dict_getitem_def)
qed

end
