(* ===== verification/Spec2Isabelle.thy ===== *)
theory Spec2Isabelle
  imports Scenarios Driver Utilities
begin

text \<open>
  \<^bold>\<open>A verification model of Video-Transcription-Automator.\<close>

  The program is one Python script, \<^verbatim>\<open>src/Video-Transcription-Automator.py\<close>. At
  module level it computes yesterday's date, builds five channel directories
  \<open>{root}/{period}/{channel}/{day month}\<close>, and runs two batches of them one after the
  other with a 30 second pause (lines 147--176). A batch,
  \<open>process_and_upload_transcripts_in_parallel\<close> (lines 77--145), first gathers work
  items: for each directory it resolves the language from the channel folder
  (\<open>get_language_from_directory\<close>, lines 60--74), deep-copies the global \<open>base_conf\<close>
  (lines 19--24), sets the copy's language and walks the directory for \<open>.mp4\<close> files.
  It then submits one task per item to a \<open>ThreadPoolExecutor\<close> with eight workers; each
  task (\<open>process_single_file\<close>, lines 99--133) submits a job to the Speechmatics
  service, waits for the \<open>srt\<close> transcript and writes it beside the video, catching and
  printing HTTP and other errors. The main thread drains the futures with
  \<open>as_completed\<close> and prints any exception that escaped a task. Two utilities,
  \<open>getTranscript\<close> and \<open>getJobIDs\<close> (lines 27--57), are defined but never called.

  \<^bold>\<open>Theories.\<close>
  \<^item> \<open>Prelude\<close>: the development's \<open>named_theorems\<close> collection \<open>py_simps\<close>, the type
    \<open>path\<close>, Python's \<open>dict.get\<close> on a dictionary literal (\<open>dict_get\<close>) and shared
    list lemmas.
  \<^item> \<open>PyPath\<close>: the library functions the script calls, translated from CPython's
    \<open>posixpath\<close> and \<open>genericpath\<close>: \<open>str_rfind\<close>, \<open>str_endswith\<close>,
    \<open>py_basename\<close>, \<open>py_dirname\<close>, \<open>py_join\<close>, \<open>py_splitext\<close> (with its
    leading-dot loop \<open>skip_leading_dots\<close>, a \<^theory_text>\<open>function\<close> with a measure), and
    \<open>transcript_path\<close> of line 121. Lemmas: \<open>rfind\<close> on appended strings, the shape of
    \<open>splitext\<close> on a name with an extension, \<open>dirname\<close> of a channel directory, and the
    transcript path's properties.
  \<^item> \<open>Language\<close>: LanguageResolver, \<open>language_map\<close> and
    \<open>get_language_from_directory\<close>.
  \<^item> \<open>Discovery\<close>: WorkItemDiscoverer. The file system is a tree \<open>fsnode\<close> resolved
    by path components; \<open>walk\<close>/\<open>os_walk\<close> is \<open>os.walk\<close> top-down, ignoring a
    missing directory. Configurations live on an explicit heap (\<open>heap\<close>, a list indexed
    by address, \<open>base_conf\<close> at address 0) because the program shares one dictionary
    among all items of a directory; \<open>deepcopy\<close> allocates, \<open>set_language\<close> writes
    through a reference. \<open>discover_directory\<close> is one iteration of the gathering loop,
    \<open>gather_work_items\<close> the loop. \<open>discover_spec\<close> is the value-level contract and
    \<open>deref_items\<close> the abstraction from the heap; the invariant \<open>disc_inv\<close> is kept
    by every iteration.
  \<^item> \<open>Client\<close>: the TranscriptionClient interface: the API key and the
    \<open>ConnectionSettings\<close> of lines 10--16 and the argument each \<open>BatchClient\<close> is built
    with (\<open>batch_client_arg\<close>, \<open>utility_client_arg\<close>), exceptions \<open>exc\<close>
    (\<open>HTTPStatusError\<close> with status and body, or any other exception), the JSON body of
    an error response and \<open>response_detail\<close> (line 129), the \<open>service\<close> record giving
    the answers of \<open>submit_job\<close>, \<open>wait_for_completion\<close> and \<open>open\<close>, and the
    observable \<open>effect\<close>s (printed lines, written files).
  \<^item> \<open>Worker\<close>: \<open>handle_exception\<close> (the two \<open>except\<close> clauses) and
    \<open>process_single_file\<close>, returning its effects and the exception that escapes it.
  \<^item> \<open>Pool\<close>: the executor as an \<^theory_text>\<open>inductive\<close> step relation \<open>pool_step\<close>
    (start the next queued task when fewer than \<open>max_workers\<close> run; finish any running
    task), generic in tasks and results; the invariant \<open>pool_inv\<close> (every task in exactly
    one place, the bound, results are the tasks' own, FIFO queue).
  \<^item> \<open>Batch\<close>: the orchestrator: \<open>max_workers = 8\<close>, one future per item,
    \<open>report_future\<close> for the \<open>as_completed\<close> loop, \<open>batch_log\<close>, and
    \<open>batch_run\<close>, the complete runs of a batch.
  \<^item> \<open>Interleave\<close>: the executor at the granularity of single effects. Worker threads
    (\<open>Thread i\<close>) perform their prints and writes one at a time, and the main thread
    receives any finished future from \<open>as_completed\<close> and prints its report
    (\<open>main_report\<close>); \<open>istep\<close> is the step relation, \<open>trace\<close> the tagged output and
    \<open>proj\<close> one thread's share of it. The invariants \<open>iinv_tasks\<close> (where every
    future is) and \<open>iinv_trace\<close> (what the trace holds so far) are kept by every step.
    \<open>ibatch_run\<close> is a complete interleaved batch.
  \<^item> \<open>Dates\<close>: the date arithmetic of lines 148--152: a proleptic Gregorian
    \<open>date\<close> record, \<open>sub_one_day\<close> (CPython's \<open>normalize_y_m_d\<close> on day 0, with
    \<open>OverflowError\<close> below year 1), \<open>toordinal\<close> as the reference calendar, and
    \<open>strftime_day_month\<close> for \<open>"%d %B"\<close> in the C locale, with \<open>parse_day_month\<close>
    reading a folder name back.
  \<^item> \<open>Driver\<close>: BatchSequencer, the module-level code of lines 147--176: the five
    channel directories (\<open>channel_dir\<close>, \<open>batch_1\<close>, \<open>batch_2\<close>), the observable
    \<open>event\<close> trace (\<open>script_events\<close>: printed lines, written files, the 30 second
    \<open>Sleep\<close>) and \<open>script_run\<close>, an \<^theory_text>\<open>inductive\<close> relation whose runs either
    stop at the date overflow or run the two batches to completion in order;
    \<open>script_out\<close> is the output given what each batch call printed.
  \<^item> \<open>Utilities\<close>: \<open>getTranscript\<close> and \<open>getJobIDs\<close> (lines 26--57) over a
    \<open>job_client\<close> record of the service's answers, with the \<open>KeyError\<close> of a
    dictionary subscript (\<open>dict_getitem\<close>) as a value.
  \<^item> \<open>Scenarios\<close>: the specification's end-to-end inputs (a directory tree and remote
    services), their evaluation in the kernel, a complete two-item atomic run, a pool state
    part-way through it, a complete one-item interleaved run, and the witnesses of the
    component theorems.
  \<^item> This theory: the end-to-end scenarios as properties.

  \<^bold>\<open>What the properties show.\<close> Discovery refines its value-level contract, finds
  each \<open>.mp4\<close> file of the walked subtrees exactly once, never mutates \<open>base_conf\<close>,
  and makes one configuration per directory that all of its items alias (contrary to the
  specification's per-item deep-copy property). In every state a batch can reach, its
  futures have started in the order discovery listed their items, and at most eight run at
  once. When a batch returns, it has recorded exactly one outcome per item (the outcome of
  that item's worker alone), written every transcript whose calls succeed regardless of
  the other items, reported the exceptions that escape a worker, and never written over a
  discovered video; the only exceptions that reach its \<open>Error occurred in thread\<close> line
  are the decoding errors of an HTTP 400 body, since discovery gives every item a language
  and the \<open>KeyError\<close> branch of line 103 is dead. At the granularity of single prints,
  each item's lines appear in the order its worker performs them, and the main thread's
  report of an escaped exception follows all of that worker's lines. A worker's outcome
  depends only on the answers to its own calls, including only the wait on the job its
  submission returned; it writes only its own transcript, lets only two kinds of exception
  escape, and treats a 404 as a generic HTTP error. The transcript path lies in the video's
  directory and is never the video path, and \<open>splitext\<close> of a transcript path gives back
  the video's stem; but for every prefix whose last component has no character other than
  a dot, \<open>q.mp4\<close> and \<open>q.mp4.mp4\<close> are distinct videos with the same transcript. For
  every valid date the script resolves the five directories to their intended languages;
  a directory given with a trailing \<open>/\<close> resolves to \<open>auto\<close> instead. January 1 of
  year 1 makes the date arithmetic overflow. Yesterday's date is the date of ordinal one
  less, its folder name reads back to its day and month, and \<open>%d\<close> pads the day to two
  digits (March 5 names the folder \<open>05 March\<close>; the code's comment gives the format as
  \<open>13 January\<close>, which does not show the padding). Of the utilities, \<open>getJobIDs\<close>
  prints one line per job and raises \<open>KeyError\<close> on a job missing a key, and
  \<open>getTranscript\<close> lets every exception other than an HTTP 404 or 401 escape.

  \<^bold>\<open>Modelling choices.\<close> No fuel is needed: every loop of the script is over a finite
  list or tree, so every function is total by structural recursion or a measure. The
  remote service is a record of functions: it answers deterministically per call, which
  covers every answer a single run can observe for one item. Its \<open>wait_for_completion\<close>
  is total, but the real call polls without a timeout (line 114) and can block forever;
  the model has no value for a call that never returns, so no property claims that a batch
  or the script terminates: the batch properties hold of the runs that do return. Likewise
  \<open>open\<close> either fails or succeeds, and the write after a successful \<open>open\<close> is not
  modelled as able to fail (a full disk would raise from \<open>write\<close> or \<open>close\<close>). A task is atomic in the pool model of \<open>Batch\<close>,
  its printed lines recorded together when it finishes; \<open>Interleave\<close> refines this to one
  step per print or write. A single \<open>print\<close> is one step there: CPython writes the text
  and the newline separately, so two threads' output can in fact mix within a line, which
  is not modelled. Both batches of a script run see the same
  file system: the files batch 1 writes end in \<open>.txt\<close> and are never discovered, so
  feeding them back would not change batch 2's items. Dates are natural-number triples;
  \<open>datetime.today()\<close> is the parameter \<open>today\<close> of \<open>script_run\<close>, and only its
  date part is used by the script. Symbolic links and \<open>.\<close>/\<open>..\<close> path components
  are not modelled. The Speechmatics client library itself is external: the model keeps the
  key and settings it is given and sees only the answers of \<open>submit_job\<close>,
  \<open>wait_for_completion\<close>, \<open>get_job_result\<close> and \<open>list_jobs\<close>, and the outcome of
  \<open>open\<close>.
\<close>

section \<open>End-to-end scenarios\<close>

text \<open>The end-to-end discovery scenario of the specification: the tree
  \<open>Channel 5/13 January/{a.mp4, sub/b.mp4}\<close> with \<open>Channel 5\<close> mapped to \<open>en\<close>
  yields two work items, both with language \<open>en\<close>, whose transcripts are
  \<open>a.txt\<close> and \<open>sub/b.txt\<close>.\<close>

lemma scenario_channel5_items:
  "map (\<lambda>(p, c). (transcript_path p, language c)) (deref_items (gather_work_items ex_fs [ch5_dir])) =
   [(''root/Period (2025 H1)/Channel 5/13 January/a.txt'', Some ''en''),
    (''root/Period (2025 H1)/Channel 5/13 January/sub/b.txt'', Some ''en'')]"
  by (simp add: deref_items_def ex_items ex_heap transcript_path_a transcript_path_b)

text \<open>A directory whose channel is not in the table yields work items with language
  \<open>auto\<close>.\<close>

theorem scenario_unmapped_auto:
  "map (\<lambda>(p, c). language c) (deref_items (gather_work_items ex_fs [news_dir])) = [Some ''auto'']"
  by code_simp

text \<open>The two items of one directory share their configuration object: setting
  the language through the first item's reference changes the second item's configuration,
  contrary to the specification's deep-copy property.\<close>

theorem scenario_shared_config:
  "language (set_language (heap ex_st) (config (items ex_st ! 0)) ''ta'' ! config (items ex_st ! 1)) = Some ''ta''"
  by (simp add: ex_items ex_heap set_language_def)

section \<open>Witnesses of the driver and date properties\<close>

theorem script_languages_witness:
  "valid_date \<lparr>year = 2025, month = 1, day = 13\<rparr> \<and>
   map get_language_from_directory
     (batch_1 (strftime_day_month \<lparr>year = 2025, month = 1, day = 13\<rparr>) @
      batch_2 (strftime_day_month \<lparr>year = 2025, month = 1, day = 13\<rparr>)) =
   [''en'', ''cmn'', ''cmn'', ''ms'', ''ta'']"
proof -
  have v: "valid_date \<lparr>year = 2025, month = 1, day = 13\<rparr>"
    by (simp add: valid_date_def days_in_month_def)
  show ?thesis using v script_languages [OF v] by simp
qed

theorem sub_one_day_ordinal_witness:
  "valid_date \<lparr>year = 2, month = 1, day = 1\<rparr> \<and>
   sub_one_day \<lparr>year = 2, month = 1, day = 1\<rparr> = Inr \<lparr>year = 1, month = 12, day = 31\<rparr> \<and>
   toordinal \<lparr>year = 1, month = 12, day = 31\<rparr> + 1 = toordinal \<lparr>year = 2, month = 1, day = 1\<rparr>"
proof -
  have v: "valid_date \<lparr>year = 2, month = 1, day = 1\<rparr>"
    by (simp add: valid_date_def days_in_month_def)
  have s: "sub_one_day \<lparr>year = 2, month = 1, day = 1\<rparr> = Inr \<lparr>year = 1, month = 12, day = 31\<rparr>"
    by (simp add: sub_one_day_def)
  show ?thesis using v s sub_one_day_ordinal [OF v s] by simp
qed

theorem sub_one_day_overflow_witness:
  "valid_date \<lparr>year = 1, month = 1, day = 1\<rparr> \<and>
   sub_one_day \<lparr>year = 1, month = 1, day = 1\<rparr> = Inl (OtherException ''OverflowError'' ''date value out of range'')"
proof -
  have v: "valid_date \<lparr>year = 1, month = 1, day = 1\<rparr>"
    by (simp add: valid_date_def days_in_month_def)
  show ?thesis using v sub_one_day_overflow [OF v] by simp
qed

end
